theory Spec2Isabelle
  imports Complex_Main "HOL-Library.Multiset"
begin

section \<open>Data model (proposal\_mcp\_schema.sql)\<close>

text \<open>
  Identifiers (UUID columns) are natural numbers, timestamps are integers (seconds), a
  \<^verbatim>\<open>HALFVEC\<close> is a list of reals. A nullable column is an \<open>option\<close>, \<open>None\<close> being
  SQL \<^verbatim>\<open>NULL\<close>. A table is the list of its rows. Values of the types \<^verbatim>\<open>FLOAT\<close> and
  \<^verbatim>\<open>DECIMAL\<close> are real numbers; the rounding of the division of numerics is written out
  where the search queries divide, the rounding of floating-point values is not
  modelled.
\<close>

type_synonym uuid = nat
type_synonym timestamptz = int
type_synonym halfvec = "real list"

datatype validation_status = Pending | Sent | Approved | Rejected | Updated | Expired

text \<open>Table \<^verbatim>\<open>experience\<close>: the columns that the search function and the handlers read or write.\<close>

record experience =
  e_id :: uuid
  e_description :: string
  e_keywords :: "string list option"
  e_entity_type :: "string option"
  e_entity_id :: "uuid option"
  e_entity_name :: "string option"
  e_source_type :: string
  e_source_id :: "uuid option"
  e_confidence_score :: "real option"
  e_embedding :: "halfvec option"
  e_is_validated :: "bool option"
  e_created_at :: "timestamptz option"
  e_created_by :: "string option"


section \<open>Hybrid search (search\_experience, search\_internal\_resources)\<close>

text \<open>
  The operators of the database engine are parameters of the model:
  \<open>cos_dist a b\<close> is pgvector's cosine distance \<^verbatim>\<open>a <=> b\<close>,
  \<open>fts_match q e\<close> is \<^verbatim>\<open>e.search_vector @@ websearch_to_tsquery('english', q)\<close> and
  \<open>fts_rank q e\<close> is \<^verbatim>\<open>ts_rank(e.search_vector, websearch_to_tsquery('english', q))\<close>.
  The arguments of the functions are taken to be non-NULL, except \<open>p_entity_type\<close>.
\<close>

subsection \<open>The executor\<close>

text \<open>
  \<^verbatim>\<open>ORDER BY\<close> fixes the order of rows only as far as their sort keys differ; the order
  among rows with equal keys is the executor's choice, and so is the order in which a
  scan or a join delivers rows. The choice is a parameter of the model: an executor
  gives, for each of the three \<^verbatim>\<open>ORDER BY\<close> clauses of a search query, the arrangement
  in which the rows reach the sort. An executor is admissible when each arrangement is
  a permutation of its rows. Every order that \<^verbatim>\<open>ORDER BY\<close> allows is the result of
  \<open>order_by\<close> for some arrangement, and nothing else is.
\<close>

record ('r, 'h) executor =
  arrange_semantic :: "('r \<times> real) list \<Rightarrow> ('r \<times> real) list"
  arrange_fulltext :: "'r list \<Rightarrow> 'r list"
  arrange_result :: "'h list \<Rightarrow> 'h list"

definition permuting :: "('r, 'h) executor \<Rightarrow> bool" where
  "permuting X =
     ((\<forall>xs. mset (arrange_semantic X xs) = mset xs)
      \<and> (\<forall>xs. mset (arrange_fulltext X xs) = mset xs)
      \<and> (\<forall>xs. mset (arrange_result X xs) = mset xs))"

definition order_by :: "('a list \<Rightarrow> 'a list) \<Rightarrow> ('a \<Rightarrow> 'k::linorder) \<Rightarrow> 'a list \<Rightarrow> 'a list" where
  "order_by arrange key rows = sort_key key (arrange rows)"

text \<open>\<^verbatim>\<open>ROW_NUMBER() OVER (ORDER BY ...)\<close> on rows already in that order: numbering from 1.\<close>

definition row_number :: "'a list \<Rightarrow> ('a \<times> nat) list" where
  "row_number xs = zip xs [1 ..< Suc (length xs)]"


subsection \<open>Arithmetic of the type numeric\<close>

text \<open>
  \<^verbatim>\<open>1.0 / (60 + ss.rank)\<close> divides the numeric constant \<^verbatim>\<open>1.0\<close> by a bigint, which is
  a division of numerics. Its result is rounded, half away from zero, to a scale that
  PostgreSQL chooses from the operands (\<^verbatim>\<open>select_div_scale\<close>): with 16 significant
  digits at least, which for the dividend 1.0 and a divisor \<open>n\<close> is 20 decimal places plus
  4 for every base-10000 digit of \<open>n\<close> after the first. The sum of two numerics is exact.
\<close>

function nbase_weight :: "nat \<Rightarrow> nat" where
  "nbase_weight n = (if n < 10000 then 0 else Suc (nbase_weight (n div 10000)))"
  by pat_completeness auto
termination
  by (relation "measure (\<lambda>n. n)") auto

definition div_scale :: "nat \<Rightarrow> nat" where
  "div_scale n = 20 + 4 * nbase_weight n"

definition numeric_one_over :: "nat \<Rightarrow> real" where
  "numeric_one_over n =
     real ((2 * 10 ^ div_scale n + n) div (2 * n)) / 10 ^ div_scale n"


subsection \<open>The query of search\_experience\<close>

text \<open>\<^verbatim>\<open>p_entity_type IS NULL OR e.entity_type = p_entity_type\<close>\<close>

definition entity_type_ok :: "string option \<Rightarrow> experience \<Rightarrow> bool" where
  "entity_type_ok p_entity_type e =
     (case p_entity_type of None \<Rightarrow> True | Some t \<Rightarrow> e_entity_type e = Some t)"

text \<open>
  \<^verbatim>\<open>e.embedding <=> query_embedding\<close>, which is NULL for a row without embedding; such a
  row fails the threshold test of the \<^verbatim>\<open>WHERE\<close> clause.
\<close>

definition with_distance ::
  "(halfvec \<Rightarrow> halfvec \<Rightarrow> real) \<Rightarrow> halfvec \<Rightarrow> experience \<Rightarrow> (experience \<times> real) option" where
  "with_distance cos_dist query_embedding e =
     map_option (\<lambda>v. (e, cos_dist v query_embedding)) (e_embedding e)"

text \<open>A row of either branch: the source row, its similarity and its rank in the branch.\<close>

type_synonym 'r branch_row = "'r \<times> real \<times> nat"

definition semantic_search ::
  "(experience, 'h) executor \<Rightarrow> (halfvec \<Rightarrow> halfvec \<Rightarrow> real) \<Rightarrow> experience list \<Rightarrow> halfvec
     \<Rightarrow> real \<Rightarrow> string option \<Rightarrow> experience branch_row list" where
  "semantic_search X cos_dist tbl query_embedding match_threshold p_entity_type =
     map (\<lambda>((e, d), n). (e, 1 - d, n))
       (row_number (order_by (arrange_semantic X) snd
          (filter (\<lambda>(e, d). e_is_validated e = Some True
                            \<and> entity_type_ok p_entity_type e
                            \<and> 1 - d > match_threshold)
             (List.map_filter (with_distance cos_dist query_embedding) tbl))))"

definition fulltext_search ::
  "(experience, 'h) executor \<Rightarrow> (string \<Rightarrow> experience \<Rightarrow> bool) \<Rightarrow> (string \<Rightarrow> experience \<Rightarrow> real)
     \<Rightarrow> experience list \<Rightarrow> string \<Rightarrow> string option \<Rightarrow> experience branch_row list" where
  "fulltext_search X fts_match fts_rank tbl query_text p_entity_type =
     map (\<lambda>(e, n). (e, fts_rank query_text e, n))
       (row_number (order_by (arrange_fulltext X) (\<lambda>e. - fts_rank query_text e)
          (filter (\<lambda>e. e_is_validated e = Some True
                       \<and> entity_type_ok p_entity_type e
                       \<and> fts_match query_text e)
             tbl)))"

text \<open>
  \<^verbatim>\<open>ls FULL OUTER JOIN rs ON on l r\<close>: every pair that satisfies the condition, every left
  row without partner, every right row without partner. The order of the joined rows
  does not matter: they reach the last \<^verbatim>\<open>ORDER BY\<close> in the executor's arrangement.
\<close>

datatype ('a, 'b) joined = Both 'a 'b | LeftOnly 'a | RightOnly 'b

definition full_outer_join :: "('a \<Rightarrow> 'b \<Rightarrow> bool) \<Rightarrow> 'a list \<Rightarrow> 'b list \<Rightarrow> ('a, 'b) joined list" where
  "full_outer_join on ls rs =
     concat (map (\<lambda>l. let ms = filter (on l) rs
                       in if ms = [] then [LeftOnly l] else map (Both l) ms) ls)
     @ map RightOnly (filter (\<lambda>r. \<not> list_ex (\<lambda>l. on l r) ls) rs)"

definition coalesce :: "'a option \<Rightarrow> 'a option \<Rightarrow> 'a option" where
  "coalesce a b = (case a of Some x \<Rightarrow> Some x | None \<Rightarrow> b)"

text \<open>
  The two computed columns of the select list, the same in both search functions. A
  column of an absent side of the join is NULL, so each \<^verbatim>\<open>COALESCE\<close> gives 0 there.
  \<^verbatim>\<open>COALESCE(ss.similarity, 0.0) + COALESCE(fts.similarity, 0.0) AS similarity\<close>
\<close>

fun sum_similarity :: "('a branch_row, 'b branch_row) joined \<Rightarrow> real" where
  "sum_similarity (Both (s, ssim, srank) (f, fsim, frank)) = ssim + fsim"
| "sum_similarity (LeftOnly (s, ssim, srank)) = ssim + 0"
| "sum_similarity (RightOnly (f, fsim, frank)) = 0 + fsim"

text \<open>\<^verbatim>\<open>COALESCE(1.0 / (60 + ss.rank), 0.0) + COALESCE(1.0 / (60 + fts.rank), 0.0) AS rank\<close>,
  a numeric.\<close>

fun rrf_rank :: "('a branch_row, 'b branch_row) joined \<Rightarrow> real" where
  "rrf_rank (Both (s, ssim, srank) (f, fsim, frank)) =
     numeric_one_over (60 + srank) + numeric_one_over (60 + frank)"
| "rrf_rank (LeftOnly (s, ssim, srank)) = numeric_one_over (60 + srank) + 0"
| "rrf_rank (RightOnly (f, fsim, frank)) = 0 + numeric_one_over (60 + frank)"

text \<open>The rows of the query of \<^verbatim>\<open>search_experience\<close>.\<close>

record hit =
  h_id :: uuid
  h_description :: string
  h_keywords :: "string list option"
  h_entity_type :: "string option"
  h_entity_id :: "uuid option"
  h_entity_name :: "string option"
  h_confidence_score :: "real option"
  h_created_at :: "timestamptz option"
  h_similarity :: real
  h_rank :: real

text \<open>The select list: \<^verbatim>\<open>COALESCE(ss.c, fts.c)\<close> for every plain column \<open>c\<close>.\<close>

definition select_hit :: "(experience branch_row, experience branch_row) joined \<Rightarrow> hit" where
  "select_hit j =
     (case j of
        Both (s, ssim, srank) (f, fsim, frank) \<Rightarrow>
          \<lparr>h_id = e_id s,
           h_description = e_description s,
           h_keywords = coalesce (e_keywords s) (e_keywords f),
           h_entity_type = coalesce (e_entity_type s) (e_entity_type f),
           h_entity_id = coalesce (e_entity_id s) (e_entity_id f),
           h_entity_name = coalesce (e_entity_name s) (e_entity_name f),
           h_confidence_score = coalesce (e_confidence_score s) (e_confidence_score f),
           h_created_at = coalesce (e_created_at s) (e_created_at f),
           h_similarity = sum_similarity j,
           h_rank = rrf_rank j\<rparr>
      | LeftOnly (s, ssim, srank) \<Rightarrow>
          \<lparr>h_id = e_id s,
           h_description = e_description s,
           h_keywords = e_keywords s,
           h_entity_type = e_entity_type s,
           h_entity_id = e_entity_id s,
           h_entity_name = e_entity_name s,
           h_confidence_score = e_confidence_score s,
           h_created_at = e_created_at s,
           h_similarity = sum_similarity j,
           h_rank = rrf_rank j\<rparr>
      | RightOnly (f, fsim, frank) \<Rightarrow>
          \<lparr>h_id = e_id f,
           h_description = e_description f,
           h_keywords = e_keywords f,
           h_entity_type = e_entity_type f,
           h_entity_id = e_entity_id f,
           h_entity_name = e_entity_name f,
           h_confidence_score = e_confidence_score f,
           h_created_at = e_created_at f,
           h_similarity = sum_similarity j,
           h_rank = rrf_rank j\<rparr>)"

text \<open>\<^verbatim>\<open>FROM semantic_search ss FULL OUTER JOIN fulltext_search fts ON ss.id = fts.id\<close>\<close>

definition fused ::
  "(experience, hit) executor \<Rightarrow> (halfvec \<Rightarrow> halfvec \<Rightarrow> real) \<Rightarrow> (string \<Rightarrow> experience \<Rightarrow> bool)
     \<Rightarrow> (string \<Rightarrow> experience \<Rightarrow> real)
     \<Rightarrow> experience list \<Rightarrow> string \<Rightarrow> halfvec \<Rightarrow> real \<Rightarrow> string option \<Rightarrow> hit list" where
  "fused X cos_dist fts_match fts_rank tbl query_text query_embedding match_threshold p_entity_type =
     map select_hit
       (full_outer_join (\<lambda>ss fts. e_id (fst ss) = e_id (fst fts))
          (semantic_search X cos_dist tbl query_embedding match_threshold p_entity_type)
          (fulltext_search X fts_match fts_rank tbl query_text p_entity_type))"

text \<open>
  The whole statement after \<^verbatim>\<open>RETURN QUERY\<close>, ending in
  \<^verbatim>\<open>ORDER BY rank DESC LIMIT match_count\<close>. The only sort key is the fused score.
  PostgreSQL rejects a negative \<^verbatim>\<open>LIMIT\<close>.
\<close>

datatype sql_error = LimitMustNotBeNegative | DatatypeMismatch nat

definition search_experience_query ::
  "(experience, hit) executor \<Rightarrow> (halfvec \<Rightarrow> halfvec \<Rightarrow> real) \<Rightarrow> (string \<Rightarrow> experience \<Rightarrow> bool)
     \<Rightarrow> (string \<Rightarrow> experience \<Rightarrow> real)
     \<Rightarrow> experience list \<Rightarrow> string \<Rightarrow> halfvec \<Rightarrow> real \<Rightarrow> int \<Rightarrow> string option
     \<Rightarrow> sql_error + hit list" where
  "search_experience_query X cos_dist fts_match fts_rank tbl query_text query_embedding
       match_threshold match_count p_entity_type =
     (if match_count < 0 then Inl LimitMustNotBeNegative
      else Inr (take (nat match_count)
                  (order_by (arrange_result X) (\<lambda>h. - h_rank h)
                     (fused X cos_dist fts_match fts_rank tbl query_text query_embedding
                        match_threshold p_entity_type))))"


subsection \<open>RETURN QUERY and the declared result type\<close>

text \<open>
  A PL/pgSQL function with \<^verbatim>\<open>RETURNS TABLE (...)\<close> hands the rows of \<^verbatim>\<open>RETURN QUERY\<close> to
  its caller only if each column of the query has exactly the type that the function
  declares for it; no value is converted. If a column differs, the statement fails with
  error 42804 (returned type does not match expected type in that column) when it
  starts, before the query delivers a row or reads its \<^verbatim>\<open>LIMIT\<close>.
\<close>

datatype sql_type =
    SqlUuid | SqlText | SqlTextArray | SqlNumeric | SqlTimestamptz | SqlDoublePrecision
  | SqlResourceType

definition first_mismatch :: "sql_type list \<Rightarrow> sql_type list \<Rightarrow> nat option" where
  "first_mismatch declared returned =
     map_option fst
       (find (\<lambda>(column, d, r). d \<noteq> r) (zip [1 ..< Suc (length declared)] (zip declared returned)))"

definition return_query :: "sql_type list \<Rightarrow> sql_type list \<Rightarrow> sql_error + 'a \<Rightarrow> sql_error + 'a" where
  "return_query declared returned result =
     (case first_mismatch declared returned of
        Some column \<Rightarrow> Inl (DatatypeMismatch column)
      | None \<Rightarrow> result)"

text \<open>
  \<^verbatim>\<open>RETURNS TABLE (id UUID, description TEXT, keywords TEXT[], entity_type TEXT,
  entity_id UUID, entity_name TEXT, confidence_score DECIMAL, created_at TIMESTAMPTZ,
  similarity FLOAT, rank FLOAT)\<close>
\<close>

definition search_experience_returns_table :: "sql_type list" where
  "search_experience_returns_table =
     [SqlUuid, SqlText, SqlTextArray, SqlText, SqlUuid, SqlText, SqlNumeric, SqlTimestamptz,
      SqlDoublePrecision, SqlDoublePrecision]"

text \<open>
  The types of the select list. The first eight columns have the types of the table's
  columns. \<open>similarity\<close> is double precision: \<^verbatim>\<open><=>\<close> gives double precision, \<^verbatim>\<open>ts_rank\<close>
  gives real, and each \<^verbatim>\<open>COALESCE\<close> with the constant \<^verbatim>\<open>0.0\<close> keeps the floating type.
  \<open>rank\<close> is numeric: \<^verbatim>\<open>ROW_NUMBER()\<close> is a bigint, \<^verbatim>\<open>1.0\<close> a numeric constant, their
  quotient a numeric, and so is the sum.
\<close>

definition search_experience_select_types :: "sql_type list" where
  "search_experience_select_types =
     [SqlUuid, SqlText, SqlTextArray, SqlText, SqlUuid, SqlText, SqlNumeric, SqlTimestamptz,
      SqlDoublePrecision, SqlNumeric]"

text \<open>The function \<^verbatim>\<open>search_experience\<close> as a caller meets it.\<close>

definition search_experience ::
  "(experience, hit) executor \<Rightarrow> (halfvec \<Rightarrow> halfvec \<Rightarrow> real) \<Rightarrow> (string \<Rightarrow> experience \<Rightarrow> bool)
     \<Rightarrow> (string \<Rightarrow> experience \<Rightarrow> real)
     \<Rightarrow> experience list \<Rightarrow> string \<Rightarrow> halfvec \<Rightarrow> real \<Rightarrow> int \<Rightarrow> string option
     \<Rightarrow> sql_error + hit list" where
  "search_experience X cos_dist fts_match fts_rank tbl query_text query_embedding
       match_threshold match_count p_entity_type =
     return_query search_experience_returns_table search_experience_select_types
       (search_experience_query X cos_dist fts_match fts_rank tbl query_text query_embedding
          match_threshold match_count p_entity_type)"

text \<open>The rows that a call hands to its caller: none when it raises.\<close>

definition returned_rows :: "sql_error + 'a list \<Rightarrow> 'a list" where
  "returned_rows result = (case result of Inl err \<Rightarrow> [] | Inr rows \<Rightarrow> rows)"


subsection \<open>search\_internal\_resources\<close>

datatype resource_type = Staff | Tool | Asset | Facility | License

record internal_resource =
  ir_id :: uuid
  ir_name :: string
  ir_resource_type :: resource_type
  ir_description :: string
  ir_embedding :: "halfvec option"
  ir_is_active :: "bool option"

definition ir_with_distance ::
  "(halfvec \<Rightarrow> halfvec \<Rightarrow> real) \<Rightarrow> halfvec \<Rightarrow> internal_resource
     \<Rightarrow> (internal_resource \<times> real) option" where
  "ir_with_distance cos_dist query_embedding ir =
     map_option (\<lambda>v. (ir, cos_dist v query_embedding)) (ir_embedding ir)"

definition ir_semantic_search ::
  "(internal_resource, 'h) executor \<Rightarrow> (halfvec \<Rightarrow> halfvec \<Rightarrow> real) \<Rightarrow> internal_resource list
     \<Rightarrow> halfvec \<Rightarrow> real \<Rightarrow> internal_resource branch_row list" where
  "ir_semantic_search X cos_dist tbl query_embedding match_threshold =
     map (\<lambda>((ir, d), n). (ir, 1 - d, n))
       (row_number (order_by (arrange_semantic X) snd
          (filter (\<lambda>(ir, d). ir_is_active ir = Some True \<and> 1 - d > match_threshold)
             (List.map_filter (ir_with_distance cos_dist query_embedding) tbl))))"

definition ir_fulltext_search ::
  "(internal_resource, 'h) executor \<Rightarrow> (string \<Rightarrow> internal_resource \<Rightarrow> bool)
     \<Rightarrow> (string \<Rightarrow> internal_resource \<Rightarrow> real)
     \<Rightarrow> internal_resource list \<Rightarrow> string \<Rightarrow> internal_resource branch_row list" where
  "ir_fulltext_search X fts_match fts_rank tbl query_text =
     map (\<lambda>(ir, n). (ir, fts_rank query_text ir, n))
       (row_number (order_by (arrange_fulltext X) (\<lambda>ir. - fts_rank query_text ir)
          (filter (\<lambda>ir. ir_is_active ir = Some True \<and> fts_match query_text ir) tbl)))"

record ir_hit =
  ih_id :: uuid
  ih_name :: string
  ih_resource_type :: resource_type
  ih_description :: string
  ih_similarity :: real
  ih_rank :: real

text \<open>All four plain columns are \<^verbatim>\<open>NOT NULL\<close>, so \<^verbatim>\<open>COALESCE(ss.c, fts.c)\<close> is \<^verbatim>\<open>ss.c\<close> when
  the semantic side is present.\<close>

definition select_ir_hit ::
  "(internal_resource branch_row, internal_resource branch_row) joined \<Rightarrow> ir_hit" where
  "select_ir_hit j =
     (let ir = (case j of Both (s, ssim, srank) (f, fsim, frank) \<Rightarrow> s
                        | LeftOnly (s, ssim, srank) \<Rightarrow> s
                        | RightOnly (f, fsim, frank) \<Rightarrow> f)
      in \<lparr>ih_id = ir_id ir,
          ih_name = ir_name ir,
          ih_resource_type = ir_resource_type ir,
          ih_description = ir_description ir,
          ih_similarity = sum_similarity j,
          ih_rank = rrf_rank j\<rparr>)"

definition ir_fused ::
  "(internal_resource, ir_hit) executor \<Rightarrow> (halfvec \<Rightarrow> halfvec \<Rightarrow> real)
     \<Rightarrow> (string \<Rightarrow> internal_resource \<Rightarrow> bool) \<Rightarrow> (string \<Rightarrow> internal_resource \<Rightarrow> real)
     \<Rightarrow> internal_resource list \<Rightarrow> string \<Rightarrow> halfvec \<Rightarrow> real \<Rightarrow> ir_hit list" where
  "ir_fused X cos_dist fts_match fts_rank tbl query_text query_embedding match_threshold =
     map select_ir_hit
       (full_outer_join (\<lambda>ss fts. ir_id (fst ss) = ir_id (fst fts))
          (ir_semantic_search X cos_dist tbl query_embedding match_threshold)
          (ir_fulltext_search X fts_match fts_rank tbl query_text))"

definition search_internal_resources_query ::
  "(internal_resource, ir_hit) executor \<Rightarrow> (halfvec \<Rightarrow> halfvec \<Rightarrow> real)
     \<Rightarrow> (string \<Rightarrow> internal_resource \<Rightarrow> bool) \<Rightarrow> (string \<Rightarrow> internal_resource \<Rightarrow> real)
     \<Rightarrow> internal_resource list \<Rightarrow> string \<Rightarrow> halfvec \<Rightarrow> real \<Rightarrow> int
     \<Rightarrow> sql_error + ir_hit list" where
  "search_internal_resources_query X cos_dist fts_match fts_rank tbl query_text query_embedding
       match_threshold match_count =
     (if match_count < 0 then Inl LimitMustNotBeNegative
      else Inr (take (nat match_count)
                  (order_by (arrange_result X) (\<lambda>h. - ih_rank h)
                     (ir_fused X cos_dist fts_match fts_rank tbl query_text query_embedding
                        match_threshold))))"

text \<open>\<^verbatim>\<open>RETURNS TABLE (id UUID, name TEXT, resource_type resource_type, description TEXT,
  similarity FLOAT, rank FLOAT)\<close>, and the types of the select list.\<close>

definition search_internal_resources_returns_table :: "sql_type list" where
  "search_internal_resources_returns_table =
     [SqlUuid, SqlText, SqlResourceType, SqlText, SqlDoublePrecision, SqlDoublePrecision]"

definition search_internal_resources_select_types :: "sql_type list" where
  "search_internal_resources_select_types =
     [SqlUuid, SqlText, SqlResourceType, SqlText, SqlDoublePrecision, SqlNumeric]"

definition search_internal_resources ::
  "(internal_resource, ir_hit) executor \<Rightarrow> (halfvec \<Rightarrow> halfvec \<Rightarrow> real)
     \<Rightarrow> (string \<Rightarrow> internal_resource \<Rightarrow> bool) \<Rightarrow> (string \<Rightarrow> internal_resource \<Rightarrow> real)
     \<Rightarrow> internal_resource list \<Rightarrow> string \<Rightarrow> halfvec \<Rightarrow> real \<Rightarrow> int
     \<Rightarrow> sql_error + ir_hit list" where
  "search_internal_resources X cos_dist fts_match fts_rank tbl query_text query_embedding
       match_threshold match_count =
     return_query search_internal_resources_returns_table search_internal_resources_select_types
       (search_internal_resources_query X cos_dist fts_match fts_rank tbl query_text
          query_embedding match_threshold match_count)"


subsection \<open>The fusion rule in the words of the specification\<close>

text \<open>
  \<open>rank_in key branch i\<close> is the rank of the record \<open>i\<close> in a branch, if it is there;
  a branch the record is absent from contributes 0 to the fused score. The
  specification's term \<open>1 / (60 + rank)\<close> is exact; the query's is the rounded numeric.
\<close>

text \<open>The join column of a joined row.\<close>

fun join_key :: "('a \<Rightarrow> uuid) \<Rightarrow> ('b \<Rightarrow> uuid) \<Rightarrow> ('a, 'b) joined \<Rightarrow> uuid" where
  "join_key kl kr (Both l r) = kl l"
| "join_key kl kr (LeftOnly l) = kl l"
| "join_key kl kr (RightOnly r) = kr r"

definition rank_in :: "('r \<Rightarrow> uuid) \<Rightarrow> 'r branch_row list \<Rightarrow> uuid \<Rightarrow> nat option" where
  "rank_in key branch i =
     map_option (\<lambda>(r, sim, n). n) (find (\<lambda>(r, sim, n). key r = i) branch)"

definition rrf_term :: "nat option \<Rightarrow> real" where
  "rrf_term r = (case r of None \<Rightarrow> 0 | Some n \<Rightarrow> 1 / (60 + real n))"

definition numeric_rrf_term :: "nat option \<Rightarrow> real" where
  "numeric_rrf_term r = (case r of None \<Rightarrow> 0 | Some n \<Rightarrow> numeric_one_over (60 + n))"

definition fused_score ::
  "(nat option \<Rightarrow> real) \<Rightarrow> ('r \<Rightarrow> uuid) \<Rightarrow> 'r branch_row list \<Rightarrow> 'r branch_row list \<Rightarrow> uuid
     \<Rightarrow> real" where
  "fused_score term key ss fts i = term (rank_in key ss i) + term (rank_in key fts i)"

text \<open>
  What the specification asks of a result list, for a given term of the sum: it is the
  first \<open>limit\<close> rows of a list that holds each record of either branch exactly once (a
  full outer join of the two candidate lists), in descending order of the fused score,
  each row with the fused score of its record.
\<close>

definition rrf_ranking ::
  "(nat option \<Rightarrow> real) \<Rightarrow> ('h \<Rightarrow> uuid) \<Rightarrow> ('h \<Rightarrow> real) \<Rightarrow> ('r \<Rightarrow> uuid) \<Rightarrow> 'r branch_row list
     \<Rightarrow> 'r branch_row list \<Rightarrow> nat \<Rightarrow> 'h list \<Rightarrow> bool" where
  "rrf_ranking term hid hrank key ss fts limit hits =
     (\<exists>all. hits = take limit all
          \<and> sorted_wrt (\<lambda>a b. hrank a \<ge> hrank b) all
          \<and> distinct (map hid all)
          \<and> hid ` set all = (key \<circ> fst) ` set ss \<union> (key \<circ> fst) ` set fts
          \<and> (\<forall>h \<in> set all. hrank h = fused_score term key ss fts (hid h)))"



section \<open>Embedding queue (process-embeddings edge function)\<close>

text \<open>
  The function of \<^verbatim>\<open>supabase/functions/process-embeddings/index.ts\<close>. The database is a
  record of tables; every statement sent to it is one step of the model. The client
  reports an error of a statement in its result, which the function reads only where
  the model says so. The embedding provider is a parameter, and so is the clock, read
  once for an invocation.
\<close>

datatype job_status = JobPending | JobProcessing | JobCompleted | JobFailed

text \<open>The message of the error that the \<^verbatim>\<open>catch\<close> block stores.\<close>

datatype job_error =
    RecordNotFound string uuid
  | NoTextContent
  | OpenAIError string
  | FetchFailed string

record embedding_job =
  j_id :: uuid
  j_table_name :: string
  j_record_id :: uuid
  j_status :: job_status
  j_priority :: int
  j_retry_count :: "nat option"
  j_error_message :: "job_error option"
  j_processed_at :: "timestamptz option"

text \<open>A row of a table with an embedding: its text columns by name (absent or NULL is
  \<open>None\<close>), its keyword array, its vector slot.\<close>

record content_row =
  r_id :: uuid
  r_text :: "string \<rightharpoonup> string"
  r_keywords :: "string list option"
  r_embedding :: "halfvec option"

record db =
  embedding_queue :: "embedding_job list"
  content :: "string \<rightharpoonup> content_row list"

datatype embedding_response = Embedding halfvec | NotOk string | FetchThrows string

type_synonym embedder = "string \<Rightarrow> embedding_response"

text \<open>\<^verbatim>\<open>.single()\<close>: the row if the statement yields exactly one, no data otherwise.\<close>

definition single :: "'a list \<Rightarrow> 'a option" where
  "single xs = (case xs of [x] \<Rightarrow> Some x | _ \<Rightarrow> None)"

text \<open>\<^verbatim>\<open>from(table).select('*').eq('id', id).single()\<close>\<close>

definition select_record :: "db \<Rightarrow> string \<Rightarrow> uuid \<Rightarrow> content_row option" where
  "select_record d table_name record_id =
     (case content d table_name of
        None \<Rightarrow> None
      | Some rows \<Rightarrow> single (filter (\<lambda>r. r_id r = record_id) rows))"

text \<open>\<^verbatim>\<open>.join(' ')\<close>\<close>

fun join_sp :: "string list \<Rightarrow> string" where
  "join_sp [] = []"
| "join_sp [x] = x"
| "join_sp (x # y # ys) = x @ '' '' @ join_sp (y # ys)"

text \<open>\<^verbatim>\<open>[...].filter(Boolean).join(' ')\<close>: NULL and empty fields are dropped.\<close>

definition join_truthy :: "string option list \<Rightarrow> string" where
  "join_truthy cols = join_sp (filter (\<lambda>s. s \<noteq> []) (List.map_filter (\<lambda>c. c) cols))"

text \<open>The text that is embedded, by table name; a table of no branch gives the empty text.\<close>

definition record_text :: "string \<Rightarrow> content_row \<Rightarrow> string" where
  "record_text table_name record =
     (if table_name = ''internal_resources'' then
        join_truthy [r_text record ''name'', r_text record ''description'',
                     r_text record ''rate_notes'']
      else if table_name = ''external_resources'' then
        join_truthy [r_text record ''vendor_name'', r_text record ''description'',
                     r_text record ''pricing_notes'']
      else if table_name = ''policies'' then
        join_truthy [r_text record ''policy_name'', r_text record ''description'',
                     r_text record ''requirements'']
      else if table_name = ''experience'' then
        join_truthy [r_text record ''description'',
                     Some (case r_keywords record of None \<Rightarrow> [] | Some ks \<Rightarrow> join_sp ks)]
      else if table_name = ''rfps'' then
        join_truthy [r_text record ''project_title'', r_text record ''client_name'',
                     r_text record ''parsed_markdown'']
      else [])"

text \<open>\<^verbatim>\<open>from('embedding_queue').update(...).eq('id', id)\<close>: keyed on the id alone.\<close>

definition update_job :: "uuid \<Rightarrow> (embedding_job \<Rightarrow> embedding_job) \<Rightarrow> db \<Rightarrow> db" where
  "update_job i f d =
     d\<lparr>embedding_queue := map (\<lambda>j. if j_id j = i then f j else j) (embedding_queue d)\<rparr>"

text \<open>
  \<^verbatim>\<open>from(table).update({ embedding }).eq('id', record_id)\<close>. The column is a
  \<^verbatim>\<open>HALFVEC(1536)\<close> in every table: the database refuses a vector of another dimension
  and the statement changes nothing. The function does not read the result of the
  statement.
\<close>

definition halfvec_dimension :: nat where
  "halfvec_dimension = 1536"

definition update_embedding :: "string \<Rightarrow> uuid \<Rightarrow> halfvec \<Rightarrow> db \<Rightarrow> db" where
  "update_embedding table_name record_id embedding d =
     (if length embedding \<noteq> halfvec_dimension then d
      else (case content d table_name of
              None \<Rightarrow> d
            | Some rows \<Rightarrow>
                d\<lparr>content := (content d)(table_name \<mapsto>
                     map (\<lambda>r. if r_id r = record_id then r\<lparr>r_embedding := Some embedding\<rparr>
                              else r)
                       rows)\<rparr>))"

text \<open>The body of the \<^verbatim>\<open>try\<close> block after the job is marked: every \<^verbatim>\<open>throw\<close> is an
  \<open>Inl\<close>, and all of them come before the write of the vector. A refused write of the
  vector throws nothing.\<close>

definition embed_record :: "embedder \<Rightarrow> embedding_job \<Rightarrow> db \<Rightarrow> job_error + db" where
  "embed_record provider job d =
     (case select_record d (j_table_name job) (j_record_id job) of
        None \<Rightarrow> Inl (RecordNotFound (j_table_name job) (j_record_id job))
      | Some record \<Rightarrow>
          (let text = record_text (j_table_name job) record
           in if text = [] then Inl NoTextContent
              else (case provider text of
                      FetchThrows msg \<Rightarrow> Inl (FetchFailed msg)
                    | NotOk errorText \<Rightarrow> Inl (OpenAIError errorText)
                    | Embedding embedding \<Rightarrow>
                        Inr (update_embedding (j_table_name job) (j_record_id job) embedding d))))"

text \<open>One turn of the loop. \<open>job\<close> is the row as the selection at the start read it.\<close>

definition process_job :: "embedder \<Rightarrow> timestamptz \<Rightarrow> embedding_job \<Rightarrow> db \<Rightarrow> bool \<times> db" where
  "process_job provider now job d =
     (let d1 = update_job (j_id job) (\<lambda>j. j\<lparr>j_status := JobProcessing\<rparr>) d
      in case embed_record provider job d1 of
           Inr d2 \<Rightarrow>
             (True, update_job (j_id job)
                      (\<lambda>j. j\<lparr>j_status := JobCompleted, j_processed_at := Some now\<rparr>) d2)
         | Inl err \<Rightarrow>
             (False, update_job (j_id job)
                       (\<lambda>j. j\<lparr>j_status := JobFailed,
                               j_error_message := Some err,
                               j_retry_count :=
                                 Some ((case j_retry_count job of None \<Rightarrow> 0 | Some n \<Rightarrow> n) + 1)\<rparr>)
                       d1))"

text \<open>\<^verbatim>\<open>for (const job of jobs)\<close> with the two counters.\<close>

fun process_jobs ::
  "embedder \<Rightarrow> timestamptz \<Rightarrow> embedding_job list \<Rightarrow> nat \<Rightarrow> nat \<Rightarrow> db \<Rightarrow> nat \<times> nat \<times> db" where
  "process_jobs provider now [] processed failed d = (processed, failed, d)"
| "process_jobs provider now (job # jobs) processed failed d =
     (case process_job provider now job d of
        (True, d') \<Rightarrow> process_jobs provider now jobs (processed + 1) failed d'
      | (False, d') \<Rightarrow> process_jobs provider now jobs processed (failed + 1) d')"

text \<open>\<^verbatim>\<open>.eq('status', 'pending').order('priority', { ascending: true }).limit(10)\<close>,
  jobs of equal priority in the order of the table.\<close>

definition select_pending :: "db \<Rightarrow> embedding_job list" where
  "select_pending d =
     take 10 (sort_key j_priority (filter (\<lambda>j. j_status j = JobPending) (embedding_queue d)))"

datatype drain_response = NoPendingJobs | Drained nat nat nat

definition drain :: "embedder \<Rightarrow> timestamptz \<Rightarrow> db \<Rightarrow> drain_response \<times> db" where
  "drain provider now d =
     (let jobs = select_pending d
      in if jobs = [] then (NoPendingJobs, d)
         else (case process_jobs provider now jobs 0 0 d of
                 (processed, failed, d') \<Rightarrow> (Drained processed failed (length jobs), d')))"

text \<open>What a reader of the database sees of a record: its text and its vector.\<close>

definition current_text :: "db \<Rightarrow> string \<Rightarrow> uuid \<Rightarrow> string option" where
  "current_text d table_name record_id =
     map_option (record_text table_name) (select_record d table_name record_id)"

definition stored_vector :: "db \<Rightarrow> string \<Rightarrow> uuid \<Rightarrow> halfvec option" where
  "stored_vector d table_name record_id =
     (case select_record d table_name record_id of None \<Rightarrow> None | Some r \<Rightarrow> r_embedding r)"


section \<open>Validation responses (validation-response edge function)\<close>

text \<open>
  A property of the submitted object as JavaScript reads it: absent (\<^verbatim>\<open>undefined\<close>),
  \<^verbatim>\<open>null\<close>, or a value. The client writes an object as JSON, which leaves out every
  property that is \<^verbatim>\<open>undefined\<close>: an update does not touch the column of such a
  property, while \<^verbatim>\<open>null\<close> sets the column to NULL.
\<close>

datatype 'a js_value = Undefined | Null | Value 'a

text \<open>What a handler stores in the \<^verbatim>\<open>response_data\<close> column: the form handler's fields
  are a value or \<^verbatim>\<open>null\<close>, the webhook's may be absent.\<close>

datatype response_data =
    FormResponse "string option" "string option" timestamptz
  | TeamsResponse "string js_value" "string js_value" string timestamptz

text \<open>Table \<^verbatim>\<open>validation_requests\<close>: the columns that the handlers and the view read or write.\<close>

record validation_request =
  v_id :: uuid
  v_proposal_id :: "uuid option"
  v_entity_type :: string
  v_entity_id :: uuid
  v_recipient_name :: string
  v_recipient_email :: string
  v_message_id :: "string option"
  v_sent_at :: "timestamptz option"
  v_validation_status :: "validation_status option"
  v_response_received_at :: "timestamptz option"
  v_response_data :: "response_data option"
  v_corrections_provided :: "string option"
  v_experience_created :: "bool option"
  v_experience_id :: "uuid option"
  v_expires_at :: "timestamptz option"

record store =
  validation_requests :: "validation_request list"
  experience_rows :: "experience list"

text \<open>
  What a request meets outside the database: the clock, the embedding provider, and
  the value that \<^verbatim>\<open>gen_random_uuid()\<close> gives the row of an insert.
\<close>

record env =
  env_now :: timestamptz
  env_provider :: embedder
  env_new_uuid :: uuid

record form_data =
  f_token :: "string option"
  f_approval_status :: "string option"
  f_corrections :: "string option"

datatype request = GET "string option" | POST form_data | OtherMethod

datatype http_response =
    TokenRequired400
  | InvalidOrExpiredLink404
  | ValidationForm validation_request string
  | SuccessPage
  | MethodNotAllowed405
  | UncaughtException500

text \<open>The labels of the enum type \<^verbatim>\<open>validation_status\<close>; the database refuses any other text.\<close>

definition validation_status_of :: "string \<Rightarrow> validation_status option" where
  "validation_status_of s =
     (if s = ''pending'' then Some Pending
      else if s = ''sent'' then Some Sent
      else if s = ''approved'' then Some Approved
      else if s = ''rejected'' then Some Rejected
      else if s = ''updated'' then Some Updated
      else if s = ''expired'' then Some Expired
      else None)"

text \<open>
  \<^verbatim>\<open>from('validation_requests').select('*').eq('message_id', token).single()\<close>: the lookup
  reads the token column only.
\<close>

definition getValidationByToken :: "store \<Rightarrow> string \<Rightarrow> validation_request option" where
  "getValidationByToken st token =
     single (filter (\<lambda>v. v_message_id v = Some token) (validation_requests st))"

text \<open>\<^verbatim>\<open>from('validation_requests').update(...).eq('id', id)\<close>\<close>

definition update_validation ::
  "uuid \<Rightarrow> (validation_request \<Rightarrow> validation_request) \<Rightarrow> store \<Rightarrow> store" where
  "update_validation i f st =
     st\<lparr>validation_requests := map (\<lambda>v. if v_id v = i then f v else v) (validation_requests st)\<rparr>"

text \<open>
  The first statement of the POST handler. A status text that is no label of the enum
  makes the database refuse the statement; the handler does not read the error and
  goes on. A missing form field is \<^verbatim>\<open>null\<close> and is written as NULL.
\<close>

definition record_response ::
  "timestamptz \<Rightarrow> uuid \<Rightarrow> string option \<Rightarrow> string option \<Rightarrow> store \<Rightarrow> store" where
  "record_response t i approval_status corrections st =
     (let write = (\<lambda>status. update_validation i
                     (\<lambda>v. v\<lparr>v_validation_status := status,
                            v_response_received_at := Some t,
                            v_corrections_provided := corrections,
                            v_response_data := Some (FormResponse approval_status corrections t)\<rparr>)
                     st)
      in case approval_status of
           None \<Rightarrow> write None
         | Some s \<Rightarrow> (case validation_status_of s of
                        None \<Rightarrow> st
                      | Some status \<Rightarrow> write (Some status)))"

text \<open>Whitespace of \<^verbatim>\<open>trim()\<close> and \<^verbatim>\<open>\s\<close>, on ASCII: tab, line feed, vertical tab, form
  feed, carriage return, space.\<close>

definition is_space :: "char \<Rightarrow> bool" where
  "is_space c = (let n = (of_char c :: nat) in (9 \<le> n \<and> n \<le> 13) \<or> n = 32)"

definition trim :: "string \<Rightarrow> string" where
  "trim s = rev (dropWhile is_space (rev (dropWhile is_space s)))"

text \<open>\<^verbatim>\<open>toLowerCase()\<close>, on ASCII.\<close>

definition to_lower :: "char \<Rightarrow> char" where
  "to_lower c = (let n = (of_char c :: nat) in if 65 \<le> n \<and> n \<le> 90 then char_of (n + 32) else c)"

text \<open>\<^verbatim>\<open>split(/\s+/)\<close>: \<open>cur\<close> is the piece being read, in reverse. Text that starts or
  ends with whitespace gives an empty first or last piece.\<close>

function split_ws_from :: "string \<Rightarrow> string \<Rightarrow> string list" where
  "split_ws_from cur [] = [rev cur]"
| "split_ws_from cur (c # cs) =
     (if is_space c then rev cur # split_ws_from [] (dropWhile is_space cs)
      else split_ws_from (c # cur) cs)"
  by pat_completeness auto
termination
  by (relation "measure (\<lambda>(cur, s). length s)") (auto simp: le_imp_less_Suc length_dropWhile_le)

text \<open>\<^verbatim>\<open>corrections.toLowerCase().split(/\s+/).filter(w => w.length > 4).slice(0, 10)\<close>\<close>

definition extract_keywords :: "string \<Rightarrow> string list" where
  "extract_keywords corrections =
     take 10 (filter (\<lambda>w. length w > 4) (split_ws_from [] (map to_lower corrections)))"

text \<open>\<^verbatim>\<open>CHECK (entity_type IN (...))\<close> of table \<^verbatim>\<open>experience\<close>; NULL passes a check.\<close>

definition entity_type_check :: "string option \<Rightarrow> bool" where
  "entity_type_check t =
     (case t of
        None \<Rightarrow> True
      | Some s \<Rightarrow> s \<in> set [''internal_resource'', ''external_resource'', ''policy'', ''proposal'',
                           ''general''])"

text \<open>
  \<^verbatim>\<open>from('experience').insert(row).select().single()\<close>: the database refuses a row whose
  id is taken (primary key) or whose entity type fails the check; the handler then
  gets no data.
\<close>

definition insert_experience :: "experience \<Rightarrow> store \<Rightarrow> (experience \<times> store) option" where
  "insert_experience e st =
     (if e_id e \<in> set (map e_id (experience_rows st)) \<or> \<not> entity_type_check (e_entity_type e)
      then None
      else Some (e, st\<lparr>experience_rows := experience_rows st @ [e]\<rparr>))"

text \<open>
  The row that the handler inserts. \<^verbatim>\<open>validation.tenant_id\<close> is no column of
  \<^verbatim>\<open>validation_requests\<close>, so the property is undefined and is not sent; the columns that
  the handler does not name take their defaults (\<^verbatim>\<open>is_validated\<close> FALSE, \<^verbatim>\<open>created_at\<close>
  the time of the insert).
\<close>

definition correction_entry ::
  "env \<Rightarrow> validation_request \<Rightarrow> string \<Rightarrow> halfvec \<Rightarrow> experience" where
  "correction_entry e validation corrections embedding =
     \<lparr>e_id = env_new_uuid e,
      e_description = ''Validation correction: '' @ corrections,
      e_keywords = Some (extract_keywords corrections),
      e_entity_type = Some (v_entity_type validation),
      e_entity_id = Some (v_entity_id validation),
      e_entity_name = None,
      e_source_type = ''validation_response'',
      e_source_id = Some (v_id validation),
      e_confidence_score = Some (95 / 100),
      e_embedding = Some embedding,
      e_is_validated = Some False,
      e_created_at = Some (env_now e),
      e_created_by = Some ''ai''\<rparr>"

text \<open>
  The POST branch: look the request up by its token, write the response, and if there
  are corrections embed them, insert the entry and link it. The three writes are three
  statements. An exception of \<^verbatim>\<open>fetch\<close> is not caught.
\<close>

definition post_handler :: "env \<Rightarrow> form_data \<Rightarrow> store \<Rightarrow> http_response \<times> store" where
  "post_handler e form st =
     (case f_token form of
        None \<Rightarrow> (TokenRequired400, st)
      | Some token \<Rightarrow>
          if token = [] then (TokenRequired400, st)
          else (case getValidationByToken st token of
             None \<Rightarrow> (InvalidOrExpiredLink404, st)
           | Some validation \<Rightarrow>
               (let st1 = record_response (env_now e) (v_id validation) (f_approval_status form)
                            (f_corrections form) st
                in case f_corrections form of
                     None \<Rightarrow> (SuccessPage, st1)
                   | Some corrections \<Rightarrow>
                       if corrections = [] \<or> trim corrections = [] then (SuccessPage, st1)
                       else (case env_provider e corrections of
                               FetchThrows msg \<Rightarrow> (UncaughtException500, st1)
                             | NotOk errorText \<Rightarrow> (SuccessPage, st1)
                             | Embedding embedding \<Rightarrow>
                                 (case insert_experience
                                         (correction_entry e validation corrections embedding) st1 of
                                    None \<Rightarrow> (SuccessPage, st1)
                                  | Some (experience, st2) \<Rightarrow>
                                      (SuccessPage,
                                       update_validation (v_id validation)
                                         (\<lambda>v. v\<lparr>v_experience_created := Some True,
                                                v_experience_id := Some (e_id experience)\<rparr>)
                                         st2))))))"

text \<open>The GET branch shows the form for a token that the lookup finds.\<close>

definition get_handler :: "string option \<Rightarrow> store \<Rightarrow> http_response \<times> store" where
  "get_handler token_opt st =
     (case token_opt of
        None \<Rightarrow> (TokenRequired400, st)
      | Some token \<Rightarrow>
          if token = [] then (TokenRequired400, st)
          else (case getValidationByToken st token of
                  None \<Rightarrow> (InvalidOrExpiredLink404, st)
                | Some validation \<Rightarrow> (ValidationForm validation token, st)))"

definition serve_validation_response :: "env \<Rightarrow> request \<Rightarrow> store \<Rightarrow> http_response \<times> store" where
  "serve_validation_response e req st =
     (case req of
        GET token_opt \<Rightarrow> get_handler token_opt st
      | POST form \<Rightarrow> post_handler e form st
      | OtherMethod \<Rightarrow> (MethodNotAllowed405, st))"

text \<open>The entries derived from a validation request: those whose provenance points at it.\<close>

definition derived_entries :: "store \<Rightarrow> uuid \<Rightarrow> experience list" where
  "derived_entries st i =
     filter (\<lambda>x. e_source_type x = ''validation_response'' \<and> e_source_id x = Some i)
       (experience_rows st)"


subsection \<open>The view active\_validations\<close>

record proposal =
  p_id :: uuid
  p_proposal_title :: string

record active_validation =
  av_id :: uuid
  av_proposal_id :: "uuid option"
  av_proposal_title :: string
  av_entity_type :: string
  av_recipient_name :: string
  av_recipient_email :: string
  av_validation_status :: "validation_status option"
  av_sent_at :: "timestamptz option"
  av_expires_at :: "timestamptz option"
  av_actual_status :: string

text \<open>
  \<^verbatim>\<open>CASE WHEN vr.expires_at < NOW() THEN 'expired' WHEN vr.sent_at IS NULL THEN 'not_sent'
  ELSE 'active' END\<close>; a comparison with NULL is not true.
\<close>

definition actual_status :: "timestamptz \<Rightarrow> validation_request \<Rightarrow> string" where
  "actual_status t vr =
     (if (case v_expires_at vr of None \<Rightarrow> False | Some x \<Rightarrow> x < t) then ''expired''
      else if v_sent_at vr = None then ''not_sent''
      else ''active'')"

definition active_row :: "timestamptz \<Rightarrow> validation_request \<Rightarrow> proposal \<Rightarrow> active_validation" where
  "active_row t vr p =
     \<lparr>av_id = v_id vr,
      av_proposal_id = v_proposal_id vr,
      av_proposal_title = p_proposal_title p,
      av_entity_type = v_entity_type vr,
      av_recipient_name = v_recipient_name vr,
      av_recipient_email = v_recipient_email vr,
      av_validation_status = v_validation_status vr,
      av_sent_at = v_sent_at vr,
      av_expires_at = v_expires_at vr,
      av_actual_status = actual_status t vr\<rparr>"

text \<open>
  \<^verbatim>\<open>FROM validation_requests vr JOIN proposals p ON vr.proposal_id = p.id
  WHERE vr.validation_status IN ('pending', 'sent') ORDER BY vr.expires_at ASC\<close>,
  rows without expiry last.
\<close>

definition active_validations ::
  "timestamptz \<Rightarrow> proposal list \<Rightarrow> validation_request list \<Rightarrow> active_validation list" where
  "active_validations t proposals vrs =
     (let rows = concat (map (\<lambda>vr. map (active_row t vr)
                                     (filter (\<lambda>p. v_proposal_id vr = Some (p_id p)) proposals))
                    (filter (\<lambda>vr. v_validation_status vr = Some Pending
                                  \<or> v_validation_status vr = Some Sent) vrs))
      in sort_key (\<lambda>r. case av_expires_at r of Some x \<Rightarrow> x | None \<Rightarrow> 0)
           (filter (\<lambda>r. av_expires_at r \<noteq> None) rows)
         @ filter (\<lambda>r. av_expires_at r = None) rows)"


section \<open>Teams webhook (validation-webhook edge function)\<close>

record card_data =
  cd_validation_id :: "uuid option"
  cd_approval_status :: "string js_value"
  cd_corrections :: "string js_value"

record card_value =
  cv_action_verb :: "string option"
  cv_data :: "card_data option"

record teams_payload =
  tp_value :: "card_value option"
  tp_from_user_displayName :: "string option"

datatype webhook_response =
    Unauthorized401
  | ValidationRequestNotFound404
  | ResponseRecorded200
  | Ok200
  | WebhookError500

text \<open>The signature check is a placeholder that accepts every request.\<close>

definition validateTeamsWebhook :: "string option \<Rightarrow> teams_payload \<Rightarrow> bool" where
  "validateTeamsWebhook authorization payload = True"

text \<open>
  \<^verbatim>\<open>approval_status === 'approved' ? 'approved' : approval_status === 'rejected' ?
  'rejected' : 'updated'\<close>
\<close>

definition webhook_status :: "string js_value \<Rightarrow> validation_status" where
  "webhook_status approval_status =
     (if approval_status = Value ''approved'' then Approved
      else if approval_status = Value ''rejected'' then Rejected
      else Updated)"

text \<open>The column after an update that names it with the given property.\<close>

definition written :: "'a js_value \<Rightarrow> 'a option \<Rightarrow> 'a option" where
  "written property stored =
     (case property of Undefined \<Rightarrow> stored | Null \<Rightarrow> None | Value x \<Rightarrow> Some x)"

text \<open>
  \<^verbatim>\<open>update(...).eq('id', validation_id).select().single()\<close>: the statement has data when
  it changes exactly one row. A missing \<^verbatim>\<open>validation_id\<close> is no uuid and matches nothing.
\<close>

definition webhook_update ::
  "timestamptz \<Rightarrow> teams_payload \<Rightarrow> card_data \<Rightarrow> store \<Rightarrow> (validation_request \<times> store) option" where
  "webhook_update t payload d st =
     (case cd_validation_id d of
        None \<Rightarrow> None
      | Some validation_id \<Rightarrow>
          (let write = (\<lambda>v. v\<lparr>v_validation_status := Some (webhook_status (cd_approval_status d)),
                              v_response_received_at := Some t,
                              v_corrections_provided :=
                                written (cd_corrections d) (v_corrections_provided v),
                              v_response_data :=
                                Some (TeamsResponse (cd_approval_status d) (cd_corrections d)
                                        (case tp_from_user_displayName payload of
                                           None \<Rightarrow> ''Unknown''
                                         | Some n \<Rightarrow> if n = [] then ''Unknown'' else n)
                                        t)\<rparr>)
           in case single (filter (\<lambda>v. v_id v = validation_id) (validation_requests st)) of
                None \<Rightarrow> None
              | Some v \<Rightarrow> Some (write v, update_validation validation_id write st)))"

text \<open>
  The handler. \<open>None\<close> for the payload is a body that is not JSON: \<^verbatim>\<open>req.json()\<close> throws and
  the \<^verbatim>\<open>catch\<close> block answers 500, as it does when a submission carries no data.
\<close>

definition validation_webhook ::
  "timestamptz \<Rightarrow> string option \<Rightarrow> teams_payload option \<Rightarrow> store \<Rightarrow> webhook_response \<times> store" where
  "validation_webhook t authorization body st =
     (case body of
        None \<Rightarrow> (WebhookError500, st)
      | Some payload \<Rightarrow>
          if \<not> validateTeamsWebhook authorization payload then (Unauthorized401, st)
          else (case tp_value payload of
                  None \<Rightarrow> (Ok200, st)
                | Some v \<Rightarrow>
                    if cv_action_verb v = Some ''submit_validation'' then
                      (case cv_data v of
                         None \<Rightarrow> (WebhookError500, st)
                       | Some d \<Rightarrow>
                           (case webhook_update t payload d st of
                              None \<Rightarrow> (ValidationRequestNotFound404, st)
                            | Some (validation, st') \<Rightarrow> (ResponseRecorded200, st')))
                    else (Ok200, st)))"


section \<open>Example data\<close>

text \<open>Two admissible executors: one sorts the rows as they come, one reverses them first.\<close>

definition ex_as_scanned :: "('r, 'h) executor" where
  "ex_as_scanned =
     \<lparr>arrange_semantic = (\<lambda>xs. xs), arrange_fulltext = (\<lambda>xs. xs), arrange_result = (\<lambda>xs. xs)\<rparr>"

definition ex_reversed :: "('r, 'h) executor" where
  "ex_reversed = \<lparr>arrange_semantic = rev, arrange_fulltext = rev, arrange_result = rev\<rparr>"

text \<open>A small engine: distance of the first components, keyword membership and count.\<close>

definition ex_dist :: "halfvec \<Rightarrow> halfvec \<Rightarrow> real" where
  "ex_dist a b = (case (a, b) of (x # _, y # _) \<Rightarrow> \<bar>x - y\<bar> | _ \<Rightarrow> 1)"

definition ex_match :: "string \<Rightarrow> experience \<Rightarrow> bool" where
  "ex_match q e = (case e_keywords e of None \<Rightarrow> False | Some ks \<Rightarrow> q \<in> set ks)"

definition ex_rank :: "string \<Rightarrow> experience \<Rightarrow> real" where
  "ex_rank q e = (case e_keywords e of None \<Rightarrow> 0 | Some ks \<Rightarrow> real (count_list ks q))"

definition ex_entry ::
  "uuid \<Rightarrow> string list option \<Rightarrow> halfvec option \<Rightarrow> bool option \<Rightarrow> experience" where
  "ex_entry i ks v b =
     \<lparr>e_id = i, e_description = ''note'', e_keywords = ks, e_entity_type = Some ''general'',
      e_entity_id = None, e_entity_name = None, e_source_type = ''manual_entry'',
      e_source_id = None, e_confidence_score = None, e_embedding = v, e_is_validated = b,
      e_created_at = None, e_created_by = None\<rparr>"

text \<open>
  Entry 2 is the best match of both branches but is not validated; entry 3 has no
  embedding; entry 4 has no keywords.
\<close>

definition ex_experience :: "experience list" where
  "ex_experience =
     [ex_entry 1 (Some [''rate'']) (Some [1/10]) (Some True),
      ex_entry 2 (Some [''rate'', ''rate'', ''rate'']) (Some [0]) (Some False),
      ex_entry 3 (Some [''rate'', ''rate'']) None (Some True),
      ex_entry 4 None (Some [2/10]) (Some True)]"



definition ex_ir_match :: "string \<Rightarrow> internal_resource \<Rightarrow> bool" where
  "ex_ir_match q ir = (q = ir_name ir \<or> q = ir_description ir)"

definition ex_ir_rank :: "string \<Rightarrow> internal_resource \<Rightarrow> real" where
  "ex_ir_rank q ir = (if q = ir_name ir then 1 else 1/2)"

definition ex_internal_resources :: "internal_resource list" where
  "ex_internal_resources =
     [\<lparr>ir_id = 10, ir_name = ''crane'', ir_resource_type = Asset, ir_description = ''lifting'',
        ir_embedding = Some [1/10], ir_is_active = Some True\<rparr>,
      \<lparr>ir_id = 11, ir_name = ''welder'', ir_resource_type = Staff, ir_description = ''crane'',
        ir_embedding = None, ir_is_active = Some True\<rparr>,
      \<lparr>ir_id = 12, ir_name = ''crane'', ir_resource_type = Tool, ir_description = ''old'',
        ir_embedding = Some [0], ir_is_active = Some False\<rparr>]"

text \<open>A queue with one pending job for policy 7, whose text was changed twice since the
  job was queued.\<close>

definition ex_embed :: embedder where
  "ex_embed text =
     (if text = ''travel quota'' then NotOk ''rate limit'' else Embedding [real (length text)])"

definition ex_embed_ok :: embedder where
  "ex_embed_ok text = Embedding [real (length text)]"

text \<open>A provider whose vectors have the dimension of the column.\<close>

definition ex_vector :: "nat \<Rightarrow> halfvec" where
  "ex_vector n = replicate 1536 (real n)"

definition ex_embed_1536 :: embedder where
  "ex_embed_1536 text = Embedding (ex_vector (length text))"

definition ex_job :: embedding_job where
  "ex_job = \<lparr>j_id = 1, j_table_name = ''policies'', j_record_id = 7, j_status = JobPending,
             j_priority = 5, j_retry_count = Some 0, j_error_message = None,
             j_processed_at = None\<rparr>"

definition ex_policy :: "string \<Rightarrow> content_row" where
  "ex_policy description =
     \<lparr>r_id = 7, r_text = [''policy_name'' \<mapsto> ''travel'', ''description'' \<mapsto> description],
      r_keywords = None, r_embedding = Some [0]\<rparr>"

definition ex_db :: "string \<Rightarrow> db" where
  "ex_db description =
     \<lparr>embedding_queue = [ex_job], content = [''policies'' \<mapsto> [ex_policy description]]\<rparr>"

text \<open>A change of one text column of a record, as any writer of the table makes it.\<close>

definition ex_set_text :: "string \<Rightarrow> uuid \<Rightarrow> string \<Rightarrow> string \<Rightarrow> db \<Rightarrow> db" where
  "ex_set_text table_name record_id column v d =
     (case content d table_name of
        None \<Rightarrow> d
      | Some rows \<Rightarrow>
          d\<lparr>content := (content d)(table_name \<mapsto>
               map (\<lambda>r. if r_id r = record_id then r\<lparr>r_text := (r_text r)(column \<mapsto> v)\<rparr> else r)
                 rows)\<rparr>)"

definition ex_mutated_twice :: db where
  "ex_mutated_twice =
     ex_set_text ''policies'' 7 ''description'' ''rate is now 120''
       (ex_set_text ''policies'' 7 ''description'' ''rate is 110'' (ex_db ''rate 100''))"

text \<open>
  A store with one validation request, sent with token \<open>tok\<close> for proposal 5, and the
  form that reports a correction.
\<close>

definition ex_embed_down :: embedder where
  "ex_embed_down text = NotOk ''unavailable''"

definition ex_request ::
  "string \<Rightarrow> validation_status option \<Rightarrow> timestamptz option \<Rightarrow> validation_request" where
  "ex_request entity_type status expires_at =
     \<lparr>v_id = 1, v_proposal_id = Some 5, v_entity_type = entity_type, v_entity_id = 7,
      v_recipient_name = ''Pat'', v_recipient_email = ''pat@example.org'',
      v_message_id = Some ''tok'', v_sent_at = Some 0, v_validation_status = status,
      v_response_received_at = None, v_response_data = None, v_corrections_provided = None,
      v_experience_created = Some False, v_experience_id = None, v_expires_at = expires_at\<rparr>"

definition ex_store :: "validation_request \<Rightarrow> store" where
  "ex_store r = \<lparr>validation_requests = [r], experience_rows = []\<rparr>"

definition ex_form :: form_data where
  "ex_form = \<lparr>f_token = Some ''tok'', f_approval_status = Some ''updated'',
              f_corrections = Some ''rate is actually 120''\<rparr>"

definition ex_env :: "embedder \<Rightarrow> timestamptz \<Rightarrow> uuid \<Rightarrow> env" where
  "ex_env p t u = \<lparr>env_now = t, env_provider = p, env_new_uuid = u\<rparr>"



text \<open>The form delivered at time 100 for a request that expired at time 50.\<close>

definition ex_late_delivery :: "http_response \<times> store" where
  "ex_late_delivery =
     post_handler (ex_env ex_embed_1536 100 100) ex_form
       (ex_store (ex_request ''policy'' (Some Sent) (Some 50)))"

text \<open>The form delivered for a request about an experience entry: the entity type
  \<open>experience\<close> fails the check of the table of entries.\<close>

definition ex_refused_insert :: "http_response \<times> store" where
  "ex_refused_insert =
     post_handler (ex_env ex_embed_ok 10 100) ex_form
       (ex_store (ex_request ''experience'' (Some Sent) (Some 1000)))"

definition ex_proposals :: "proposal list" where
  "ex_proposals = [\<lparr>p_id = 5, p_proposal_title = ''Bid''\<rparr>]"

text \<open>A card submission with a status that is neither approved nor rejected and no
  corrections field, and a request that is already approved and holds corrections of
  an earlier response.\<close>

definition ex_answered :: validation_request where
  "ex_answered =
     (ex_request ''policy'' (Some Approved) (Some 1000))
       \<lparr>v_corrections_provided := Some ''old text''\<rparr>"

definition ex_card :: teams_payload where
  "ex_card =
     \<lparr>tp_value = Some \<lparr>cv_action_verb = Some ''submit_validation'',
                        cv_data = Some \<lparr>cd_validation_id = Some 1,
                                        cd_approval_status = Value ''needs_changes'',
                                        cd_corrections = Undefined\<rparr>\<rparr>,
      tp_from_user_displayName = None\<rparr>"


section \<open>Properties of the hybrid search\<close>

subsection \<open>Row numbers, joins and ranks\<close>

lemma row_number_fst: "(x, n) \<in> set (row_number xs) \<Longrightarrow> x \<in> set xs"
  unfolding row_number_def by (rule set_zip_leftD)

lemma map_fst_row_number: "map fst (row_number xs) = xs"
  unfolding row_number_def by (rule map_fst_zip) (simp del: upt_Suc)

lemma full_outer_join_cases:
  assumes "j \<in> set (full_outer_join on ls rs)"
  shows "case j of Both l r \<Rightarrow> l \<in> set ls \<and> r \<in> set rs \<and> on l r
         | LeftOnly l \<Rightarrow> l \<in> set ls \<and> (\<forall>r \<in> set rs. \<not> on l r)
         | RightOnly r \<Rightarrow> r \<in> set rs \<and> (\<forall>l \<in> set ls. \<not> on l r)"
  using assms unfolding full_outer_join_def
  by (auto simp: Let_def list_ex_iff filter_empty_conv split: if_splits)

lemma filter_key_distinct:
  assumes "distinct (map f xs)"
  shows "filter (\<lambda>x. f x = k) xs = [] \<or> (\<exists>x. filter (\<lambda>x. f x = k) xs = [x])"
  using assms
proof (induction xs)
  case Nil
  then show ?case by simp
next
  case (Cons a xs)
  show ?case
  proof (cases "f a = k")
    case True
    with Cons.prems have "\<forall>x \<in> set xs. f x \<noteq> k" by (auto simp: image_iff)
    then have "filter (\<lambda>x. f x = k) xs = []" by (simp add: filter_empty_conv)
    with True show ?thesis by simp
  next
    case False
    with Cons show ?thesis by simp
  qed
qed

lemma find_key_distinct:
  assumes "distinct (map f xs)" and "x \<in> set xs"
  shows "find (\<lambda>y. f y = f x) xs = Some x"
  using assms by (induction xs) (auto simp: image_iff)

lemma join_left_keys:
  assumes "distinct (map kr rs)"
  shows "map (join_key kl kr)
           (concat (map (\<lambda>l. let ms = filter (\<lambda>r. kl l = kr r) rs
                              in if ms = [] then [LeftOnly l] else map (Both l) ms) ls))
         = map kl ls"
proof (induction ls)
  case Nil
  then show ?case by simp
next
  case (Cons l ls)
  have eq: "(\<lambda>r. kl l = kr r) = (\<lambda>r. kr r = kl l)" by auto
  from filter_key_distinct[OF assms, of "kl l"]
  have "map (join_key kl kr) (let ms = filter (\<lambda>r. kl l = kr r) rs
                              in if ms = [] then [LeftOnly l] else map (Both l) ms) = [kl l]"
    unfolding eq by (auto simp: Let_def)
  with Cons show ?case by simp
qed

text \<open>With a key on either side, the join lists every left key, then the right keys
  that no left row has.\<close>

lemma full_outer_join_keys:
  assumes "distinct (map kr rs)"
  shows "map (join_key kl kr) (full_outer_join (\<lambda>l r. kl l = kr r) ls rs)
         = map kl ls @ filter (\<lambda>i. i \<notin> kl ` set ls) (map kr rs)"
proof -
  have "map (join_key kl kr) (map RightOnly (filter (\<lambda>r. \<not> list_ex (\<lambda>l. kl l = kr r) ls) rs))
        = filter (\<lambda>i. i \<notin> kl ` set ls) (map kr rs)"
    by (induction rs) (auto simp: list_ex_iff intro: rev_image_eqI)
  then show ?thesis
    unfolding full_outer_join_def using join_left_keys[OF assms, of kl ls] by simp
qed

lemma rank_in_present:
  assumes "distinct (map (key \<circ> fst) branch)" and "(r, sim, n) \<in> set branch"
  shows "rank_in key branch (key r) = Some n"
  unfolding rank_in_def case_prod_unfold
  using find_key_distinct[OF assms] by simp

lemma rank_in_absent:
  assumes "\<forall>y \<in> set branch. key (fst y) \<noteq> i"
  shows "rank_in key branch i = None"
  using assms unfolding rank_in_def by (auto simp: find_None_iff)

lemma rrf_rank_is_fused_score:
  assumes dl: "distinct (map (key \<circ> fst) ss)" and dr: "distinct (map (key \<circ> fst) fts)"
      and j: "j \<in> set (full_outer_join (\<lambda>l r. key (fst l) = key (fst r)) ss fts)"
  shows "rrf_rank j
         = fused_score numeric_rrf_term key ss fts (join_key (key \<circ> fst) (key \<circ> fst) j)"
proof (cases j)
  case (Both l r)
  obtain s ssim srank where l: "l = (s, ssim, srank)" by (cases l)
  obtain f fsim frank where r: "r = (f, fsim, frank)" by (cases r)
  from full_outer_join_cases[OF j] Both l r
  have "(s, ssim, srank) \<in> set ss" "(f, fsim, frank) \<in> set fts" "key s = key f" by auto
  with rank_in_present[OF dl, of s ssim srank] rank_in_present[OF dr, of f fsim frank]
  show ?thesis using Both l r by (simp add: fused_score_def numeric_rrf_term_def)
next
  case (LeftOnly l)
  obtain s ssim srank where l: "l = (s, ssim, srank)" by (cases l)
  from full_outer_join_cases[OF j] LeftOnly l
  have "(s, ssim, srank) \<in> set ss" "\<forall>y \<in> set fts. key (fst y) \<noteq> key s" by auto
  with rank_in_present[OF dl, of s ssim srank] rank_in_absent[of fts key "key s"]
  show ?thesis using LeftOnly l by (simp add: fused_score_def numeric_rrf_term_def)
next
  case (RightOnly r)
  obtain f fsim frank where r: "r = (f, fsim, frank)" by (cases r)
  from full_outer_join_cases[OF j] RightOnly r
  have "(f, fsim, frank) \<in> set fts" "\<forall>y \<in> set ss. key (fst y) \<noteq> key f" by auto
  with rank_in_present[OF dr, of f fsim frank] rank_in_absent[of ss key "key f"]
  show ?thesis using RightOnly r by (simp add: fused_score_def numeric_rrf_term_def)
qed


subsection \<open>ORDER BY under an admissible executor\<close>

lemma mset_order_by:
  assumes "mset (arrange xs) = mset xs"
  shows "mset (order_by arrange key xs) = mset xs"
  using assms by (simp add: order_by_def)

lemma set_order_by:
  assumes "mset (arrange xs) = mset xs"
  shows "set (order_by arrange key xs) = set xs"
  using mset_order_by[of arrange xs key, OF assms] by (metis set_mset_mset)

lemma sorted_order_by: "sorted (map key (order_by arrange key xs))"
  by (simp add: order_by_def)

lemma distinct_map_order_by:
  assumes "mset (arrange xs) = mset xs"
  shows "distinct (map f (order_by arrange key xs)) = distinct (map f xs)"
proof -
  from mset_order_by[of arrange xs key, OF assms]
  have "mset (map f (order_by arrange key xs)) = mset (map f xs)" by simp
  then show ?thesis by (rule mset_eq_imp_distinct_iff)
qed



text \<open>The tail of either search query: join, select list, \<^verbatim>\<open>ORDER BY\<close>, \<^verbatim>\<open>LIMIT\<close>.\<close>

lemma rrf_ranking_pipeline:
  assumes dl: "distinct (map (key \<circ> fst) ss)" and dr: "distinct (map (key \<circ> fst) fts)"
      and hid: "\<And>j. hid (sel j) = join_key (key \<circ> fst) (key \<circ> fst) j"
      and hrank: "\<And>j. hrank (sel j) = rrf_rank j"
      and perm: "\<And>xs. mset (arrange xs) = mset xs"
  shows "rrf_ranking numeric_rrf_term hid hrank key ss fts m
           (take m (order_by arrange (\<lambda>h. - hrank h)
              (map sel (full_outer_join (\<lambda>l r. key (fst l) = key (fst r)) ss fts))))"
proof -
  let ?J = "full_outer_join (\<lambda>l r. key (fst l) = key (fst r)) ss fts"
  let ?all = "order_by arrange (\<lambda>h. - hrank h) (map sel ?J)"
  have keys: "map hid (map sel ?J)
              = map (key \<circ> fst) ss @ filter (\<lambda>i. i \<notin> (key \<circ> fst) ` set ss) (map (key \<circ> fst) fts)"
    using full_outer_join_keys[OF dr, of "key \<circ> fst" ss] by (simp add: hid comp_def)
  have "sorted (map (\<lambda>h. - hrank h) ?all)" by (rule sorted_order_by)
  then have srt: "sorted_wrt (\<lambda>a b. hrank a \<ge> hrank b) ?all"
    by (simp add: sorted_map)
  have "distinct (map hid (map sel ?J))"
    unfolding keys using dl dr by (auto simp: distinct_map_filter)
  then have dst: "distinct (map hid ?all)"
    by (simp only: distinct_map_order_by[of arrange, OF perm])
  have "set (map hid (map sel ?J)) = (key \<circ> fst) ` set ss \<union> (key \<circ> fst) ` set fts"
    unfolding keys by auto
  then have ids: "hid ` set ?all = (key \<circ> fst) ` set ss \<union> (key \<circ> fst) ` set fts"
    by (simp add: set_order_by[of arrange, OF perm] image_image)
  have score: "\<forall>h \<in> set ?all. hrank h = fused_score numeric_rrf_term key ss fts (hid h)"
  proof
    fix h assume "h \<in> set ?all"
    then obtain j where "j \<in> set ?J" "h = sel j"
      by (auto simp: set_order_by[of arrange, OF perm])
    with rrf_rank_is_fused_score[OF dl dr, of j]
    show "hrank h = fused_score numeric_rrf_term key ss fts (hid h)"
      by (simp add: hid hrank)
  qed
  from srt dst ids score show ?thesis
    unfolding rrf_ranking_def by blast
qed


lemma branch_keys:
  "map (key \<circ> fst) (map (\<lambda>(r, n). (r, g r, n)) (row_number xs)) = map key xs"
proof -
  have "map (key \<circ> fst) (map (\<lambda>(r, n). (r, g r, n)) (row_number xs))
        = map key (map fst (row_number xs))"
    by (simp add: case_prod_unfold comp_def)
  then show ?thesis by (simp only: map_fst_row_number)
qed

lemma branch_keys_dist:
  "map (key \<circ> fst) (map (\<lambda>((r, d), n). (r, g d, n)) (row_number xs)) = map (key \<circ> fst) xs"
proof -
  have "map (key \<circ> fst) (map (\<lambda>((r, d), n). (r, g d, n)) (row_number xs))
        = map (key \<circ> fst) (map fst (row_number xs))"
    by (simp add: case_prod_unfold comp_def)
  then show ?thesis by (simp only: map_fst_row_number)
qed

lemma map_filter_keys:
  assumes "\<And>x y. f x = Some y \<Longrightarrow> fst y = x"
  shows "map (key \<circ> fst) (List.map_filter f xs) = map key (filter (\<lambda>x. f x \<noteq> None) xs)"
  using assms by (induction xs) (auto simp: map_filter_simps split: option.splits)


subsection \<open>The declared result type\<close>

lemma search_experience_mismatch:
  "first_mismatch search_experience_returns_table search_experience_select_types = Some 10"
  by (simp add: first_mismatch_def search_experience_returns_table_def
      search_experience_select_types_def upt_rec)

lemma search_internal_resources_mismatch:
  "first_mismatch search_internal_resources_returns_table search_internal_resources_select_types
   = Some 6"
  by (simp add: first_mismatch_def search_internal_resources_returns_table_def
      search_internal_resources_select_types_def upt_rec)

lemma search_experience_raises:
  "search_experience X cos_dist fts_match fts_rank tbl qt qe thr n p = Inl (DatatypeMismatch 10)"
  by (simp add: search_experience_def return_query_def search_experience_mismatch)

lemma search_internal_resources_raises:
  "search_internal_resources X cos_dist fts_match fts_rank tbl qt qe thr n
   = Inl (DatatypeMismatch 6)"
  by (simp add: search_internal_resources_def return_query_def search_internal_resources_mismatch)

text \<open>The rounded quotient is within half a unit of its last place of the exact one.\<close>

lemma numeric_one_over_close:
  assumes "0 < n"
  shows "\<bar>numeric_one_over n - 1 / real n\<bar> \<le> 1 / (2 * 10 ^ div_scale n)"
proof -
  let ?s = "10 ^ div_scale n :: nat"
  let ?q = "(2 * ?s + n) div (2 * n)"
  have lo: "2 * n * ?q \<le> 2 * ?s + n"
    by (metis div_mult_mod_eq le_add1 mult.commute)
  have hi: "2 * ?s + n < 2 * n * ?q + 2 * n"
  proof -
    have "(2 * ?s + n) mod (2 * n) < 2 * n" using assms by simp
    moreover have "2 * ?s + n = 2 * n * ?q + (2 * ?s + n) mod (2 * n)"
      by (metis div_mult_mod_eq mult.commute)
    ultimately show ?thesis by linarith
  qed
  have n0: "0 < real n" and s0: "0 < real ?s" using assms by simp_all
  from lo have "real (2 * n * ?q) \<le> real (2 * ?s + n)" by (rule of_nat_mono)
  then have lo': "2 * real n * real ?q - 2 * real ?s \<le> real n" by simp
  from hi have "real (2 * ?s + n) < real (2 * n * ?q + 2 * n)" by (simp only: of_nat_less_iff)
  then have hi': "- real n < 2 * real n * real ?q - 2 * real ?s" by simp
  have "numeric_one_over n - 1 / real n = (2 * real n * real ?q - 2 * real ?s) / (2 * real n * real ?s)"
    using n0 s0 by (simp add: numeric_one_over_def field_simps)
  moreover have "\<bar>(2 * real n * real ?q - 2 * real ?s) / (2 * real n * real ?s)\<bar>
                 \<le> real n / (2 * real n * real ?s)"
    using lo' hi' n0 s0 by (simp add: abs_le_iff divide_le_cancel field_simps)
  moreover have "real n / (2 * real n * real ?s) = 1 / (2 * 10 ^ div_scale n)"
    using n0 by simp
  ultimately show ?thesis by simp
qed

lemma div_scale_ge: "20 \<le> div_scale n"
  by (simp add: div_scale_def)

text \<open>Each term of the query's sum is the specification's term up to the rounding.\<close>

lemma numeric_rrf_term_close:
  "\<bar>numeric_rrf_term r - rrf_term r\<bar> \<le> 1 / (2 * 10 ^ 20)"
proof (cases r)
  case None
  then show ?thesis by (simp add: numeric_rrf_term_def rrf_term_def)
next
  case (Some n)
  have "\<bar>numeric_one_over (60 + n) - 1 / real (60 + n)\<bar>
        \<le> 1 / (2 * 10 ^ div_scale (60 + n))"
    by (rule numeric_one_over_close) simp
  also have "\<dots> \<le> 1 / (2 * 10 ^ 20)"
  proof -
    have "(10::real) ^ 20 \<le> 10 ^ div_scale (60 + n)"
      by (rule power_increasing[OF div_scale_ge]) simp
    then have "2 * (10::real) ^ 20 \<le> 2 * 10 ^ div_scale (60 + n)" by linarith
    then show ?thesis by (intro frac_le) simp_all
  qed
  finally show ?thesis
    using Some by (simp add: numeric_rrf_term_def rrf_term_def)
qed


subsection \<open>The query of search\_experience\<close>

lemma semantic_search_source:
  assumes "permuting X" and "(e, s, n) \<in> set (semantic_search X cos_dist tbl qe thr p)"
  shows "e \<in> set tbl \<and> e_is_validated e = Some True \<and> entity_type_ok p e"
proof -
  let ?rows = "filter (\<lambda>(e, d). e_is_validated e = Some True \<and> entity_type_ok p e \<and> 1 - d > thr)
           (List.map_filter (with_distance cos_dist qe) tbl)"
  from assms(1) have perm: "mset (arrange_semantic X ?rows) = mset ?rows"
    by (simp add: permuting_def)
  from assms(2) obtain d where
    "((e, d), n) \<in> set (row_number (order_by (arrange_semantic X) snd ?rows))"
    unfolding semantic_search_def by auto
  then have "(e, d) \<in> set ?rows"
    by (auto dest: row_number_fst simp: set_order_by[of "arrange_semantic X", OF perm])
  then show ?thesis
    by (auto simp: map_filter_def with_distance_def)
qed

lemma fulltext_search_source:
  assumes "permuting X" and "(e, s, n) \<in> set (fulltext_search X fts_match fts_rank tbl qt p)"
  shows "e \<in> set tbl \<and> e_is_validated e = Some True \<and> entity_type_ok p e"
proof -
  let ?rows = "filter (\<lambda>e. e_is_validated e = Some True \<and> entity_type_ok p e \<and> fts_match qt e) tbl"
  from assms(1) have perm: "mset (arrange_fulltext X ?rows) = mset ?rows"
    by (simp add: permuting_def)
  from assms(2) have "(e, n) \<in> set (row_number (order_by (arrange_fulltext X)
                          (\<lambda>e. - fts_rank qt e) ?rows))"
    unfolding fulltext_search_def by auto
  then have "e \<in> set ?rows"
    by (auto dest: row_number_fst simp: set_order_by[of "arrange_fulltext X", OF perm])
  then show ?thesis by auto
qed

lemma select_hit_id: "h_id (select_hit j) = join_key (e_id \<circ> fst) (e_id \<circ> fst) j"
  by (cases j) (auto simp: select_hit_def)

lemma select_hit_rank: "h_rank (select_hit j) = rrf_rank j"
  by (cases j) (auto simp: select_hit_def)

lemma fused_source:
  assumes "permuting X" and "h \<in> set (fused X cos_dist fts_match fts_rank tbl qt qe thr p)"
  shows "\<exists>e \<in> set tbl. e_id e = h_id h \<and> e_is_validated e = Some True"
proof -
  from assms(2) obtain j where
    j: "j \<in> set (full_outer_join (\<lambda>ss fts. e_id (fst ss) = e_id (fst fts))
          (semantic_search X cos_dist tbl qe thr p)
          (fulltext_search X fts_match fts_rank tbl qt p))" and h: "h = select_hit j"
    unfolding fused_def by auto
  show ?thesis
  proof (cases j)
    case (Both l r)
    obtain s ssim srank where l: "l = (s, ssim, srank)" by (cases l)
    from full_outer_join_cases[OF j] Both l
    have "(s, ssim, srank) \<in> set (semantic_search X cos_dist tbl qe thr p)" by simp
    from semantic_search_source[OF assms(1) this] show ?thesis
      using h Both l by (auto simp: select_hit_id)
  next
    case (LeftOnly l)
    obtain s ssim srank where l: "l = (s, ssim, srank)" by (cases l)
    from full_outer_join_cases[OF j] LeftOnly l
    have "(s, ssim, srank) \<in> set (semantic_search X cos_dist tbl qe thr p)" by simp
    from semantic_search_source[OF assms(1) this] show ?thesis
      using h LeftOnly l by (auto simp: select_hit_id)
  next
    case (RightOnly r)
    obtain f fsim frank where r: "r = (f, fsim, frank)" by (cases r)
    from full_outer_join_cases[OF j] RightOnly r
    have "(f, fsim, frank) \<in> set (fulltext_search X fts_match fts_rank tbl qt p)" by simp
    from fulltext_search_source[OF assms(1) this] show ?thesis
      using h RightOnly r by (auto simp: select_hit_id)
  qed
qed

lemma search_experience_query_Inr:
  assumes "search_experience_query X cos_dist fts_match fts_rank tbl qt qe thr n p = Inr hits"
  shows "hits = take (nat n) (order_by (arrange_result X) (\<lambda>h. - h_rank h)
                   (fused X cos_dist fts_match fts_rank tbl qt qe thr p))"
  using assms unfolding search_experience_query_def by (auto split: if_splits)

lemma search_experience_query_subset:
  assumes "permuting X"
      and "search_experience_query X cos_dist fts_match fts_rank tbl qt qe thr n p = Inr hits"
  shows "set hits \<subseteq> set (fused X cos_dist fts_match fts_rank tbl qt qe thr p)"
proof -
  let ?F = "fused X cos_dist fts_match fts_rank tbl qt qe thr p"
  from assms(1) have "mset (arrange_result X ?F) = mset ?F" by (simp add: permuting_def)
  from set_order_by[of "arrange_result X", OF this, of "\<lambda>h. - h_rank h"] show ?thesis
    unfolding search_experience_query_Inr[OF assms(2)] using set_take_subset by fastforce
qed

text \<open>The query gives rows for every limit that is not negative.\<close>

lemma search_experience_query_returns:
  "0 \<le> n \<Longrightarrow>
   \<exists>hits. search_experience_query X cos_dist fts_match fts_rank tbl qt qe thr n p = Inr hits"
  unfolding search_experience_query_def by simp

lemmas search_defs = search_experience_query_def fused_def semantic_search_def
  fulltext_search_def full_outer_join_def row_number_def with_distance_def entity_type_ok_def
  select_hit_def coalesce_def map_filter_def order_by_def numeric_one_over_def div_scale_def

lemmas ex_defs = ex_dist_def ex_match_def ex_rank_def ex_entry_def ex_as_scanned_def
  ex_reversed_def

lemma permuting_ex_as_scanned: "permuting ex_as_scanned"
  by (simp add: permuting_def ex_as_scanned_def)

lemma permuting_ex_reversed: "permuting ex_reversed"
  by (simp add: permuting_def ex_reversed_def)

text \<open>
  C1. No call of \<open>search_experience\<close> returns an entry whose \<open>is_validated\<close> is not
  \<open>TRUE\<close>, whatever the query text, the query vector, the threshold, the limit and the
  entity-type filter, and whatever the executor chooses. As the function is written,
  every call ends in the error of its result type and hands no row to its caller. The
  query of the function body has the filter itself: every row of the query is the row
  of an entry of the table with \<open>is_validated = TRUE\<close>, and (ids being the primary key)
  an entry whose \<open>is_validated\<close> is not \<open>TRUE\<close> is not among the rows of the query.
\<close>

theorem search_experience_only_validated:
  assumes "permuting X" and "distinct (map e_id tbl)"
      and "search_experience_query X cos_dist fts_match fts_rank tbl qt qe thr n p = Inr hits"
  shows "returned_rows (search_experience X cos_dist fts_match fts_rank tbl qt qe thr n p) = []
       \<and> (\<forall>h \<in> set hits. \<exists>e \<in> set tbl. e_id e = h_id h \<and> e_is_validated e = Some True)
       \<and> (\<forall>e \<in> set tbl. e_is_validated e \<noteq> Some True \<longrightarrow> e_id e \<notin> h_id ` set hits)"
proof (intro conjI ballI impI)
  show "returned_rows (search_experience X cos_dist fts_match fts_rank tbl qt qe thr n p) = []"
    by (simp add: search_experience_raises returned_rows_def)
next
  fix h assume "h \<in> set hits"
  with search_experience_query_subset[OF assms(1,3)]
  show "\<exists>e \<in> set tbl. e_id e = h_id h \<and> e_is_validated e = Some True"
    by (auto dest: fused_source[OF assms(1)])
next
  fix e assume e: "e \<in> set tbl" "e_is_validated e \<noteq> Some True"
  show "e_id e \<notin> h_id ` set hits"
  proof
    assume "e_id e \<in> h_id ` set hits"
    then obtain h where "h \<in> set hits" "h_id h = e_id e" by auto
    with search_experience_query_subset[OF assms(1,3)]
    obtain e' where e': "e' \<in> set tbl" "e_id e' = e_id e" "e_is_validated e' = Some True"
      by (auto dest!: fused_source[OF assms(1)])
    from assms(2) e(1) e'(1,2) have "e' = e" by (auto simp: distinct_map dest: inj_onD)
    with e' e show False by simp
  qed
qed

text \<open>
  On the example table the unvalidated entry 2, nearest to the query in both branches,
  is not among the rows of the query; the call of the function returns no row.
\<close>

theorem search_experience_only_validated_witness:
  "permuting (ex_as_scanned :: (experience, hit) executor)
   \<and> distinct (map e_id ex_experience)
   \<and> (\<exists>hits. search_experience_query ex_as_scanned ex_dist ex_match ex_rank ex_experience
                ''rate'' [0] (1/2) 10 None = Inr hits
          \<and> map h_id hits = [1, 3, 4]
          \<and> e_is_validated (ex_experience ! 1) = Some False
          \<and> e_id (ex_experience ! 1) \<notin> h_id ` set hits)
   \<and> returned_rows (search_experience ex_as_scanned ex_dist ex_match ex_rank ex_experience
        ''rate'' [0] (1/2) 10 None) = []"
proof -
  have d: "distinct (map e_id ex_experience)"
    by (simp add: ex_experience_def ex_entry_def)
  obtain hits where
    r: "search_experience_query ex_as_scanned ex_dist ex_match ex_rank ex_experience
          ''rate'' [0] (1/2) 10 None = Inr hits"
    unfolding search_experience_query_def by simp
  have ids: "map h_id hits = [1, 3, 4]"
    unfolding search_experience_query_Inr[OF r]
    by (simp add: search_defs ex_defs ex_experience_def)
  have m: "ex_experience ! 1 \<in> set ex_experience" "e_is_validated (ex_experience ! 1) = Some False"
    by (simp_all add: ex_experience_def ex_entry_def)
  note t = search_experience_only_validated[OF permuting_ex_as_scanned d r]
  from t m have n: "e_id (ex_experience ! 1) \<notin> h_id ` set hits" by auto
  from t have none: "returned_rows (search_experience ex_as_scanned ex_dist ex_match ex_rank
        ex_experience ''rate'' [0] (1/2) 10 None) = []"
    by (rule conjunct1)
  show ?thesis
    by (intro conjI permuting_ex_as_scanned d exI[of _ hits] r ids m(2) n none)
qed

lemma semantic_search_distinct:
  assumes "permuting X" and "distinct (map e_id tbl)"
  shows "distinct (map (e_id \<circ> fst) (semantic_search X cos_dist tbl qe thr p))"
proof -
  let ?rows = "filter (\<lambda>(e, d). e_is_validated e = Some True \<and> entity_type_ok p e \<and> 1 - d > thr)
           (List.map_filter (with_distance cos_dist qe) tbl)"
  from assms(1) have perm: "mset (arrange_semantic X ?rows) = mset ?rows"
    by (simp add: permuting_def)
  have "map (e_id \<circ> fst) (List.map_filter (with_distance cos_dist qe) tbl)
        = map e_id (filter (\<lambda>e. with_distance cos_dist qe e \<noteq> None) tbl)"
    by (rule map_filter_keys) (auto simp: with_distance_def)
  with assms(2)
  have "distinct (map (e_id \<circ> fst) (List.map_filter (with_distance cos_dist qe) tbl))"
    by (simp add: distinct_map_filter)
  then have "distinct (map (e_id \<circ> fst) ?rows)"
    by (rule distinct_map_filter)
  then show ?thesis
    unfolding semantic_search_def branch_keys_dist distinct_map_order_by[of "arrange_semantic X", OF perm] .
qed

lemma fulltext_search_distinct:
  assumes "permuting X" and "distinct (map e_id tbl)"
  shows "distinct (map (e_id \<circ> fst) (fulltext_search X fts_match fts_rank tbl qt p))"
proof -
  let ?rows = "filter (\<lambda>e. e_is_validated e = Some True \<and> entity_type_ok p e \<and> fts_match qt e) tbl"
  from assms(1) have perm: "mset (arrange_fulltext X ?rows) = mset ?rows"
    by (simp add: permuting_def)
  from assms(2) have "distinct (map e_id ?rows)" by (rule distinct_map_filter)
  then show ?thesis
    unfolding fulltext_search_def branch_keys distinct_map_order_by[of "arrange_fulltext X", OF perm] .
qed

text \<open>
  The query itself fuses by reciprocal ranks, in the arithmetic of numerics: its rows
  are the first \<open>match_count\<close> rows of the full outer join of the two branches in
  descending order of the score, each score the sum of the rounded quotients.
\<close>

lemma search_experience_query_rrf:
  assumes "permuting X" and "distinct (map e_id tbl)"
      and "search_experience_query X cos_dist fts_match fts_rank tbl qt qe thr n p = Inr hits"
  shows "rrf_ranking numeric_rrf_term h_id h_rank e_id
           (semantic_search X cos_dist tbl qe thr p)
           (fulltext_search X fts_match fts_rank tbl qt p) (nat n) hits"
proof -
  from assms(1) have perm: "\<And>xs. mset (arrange_result X xs) = mset xs"
    by (simp add: permuting_def)
  show ?thesis
    unfolding search_experience_query_Inr[OF assms(3)] fused_def
    using rrf_ranking_pipeline[where hid = h_id and sel = select_hit and hrank = h_rank
        and m = "nat n" and arrange = "arrange_result X",
        OF semantic_search_distinct[OF assms(1,2)]
        fulltext_search_distinct[OF assms(1,2)] select_hit_id select_hit_rank perm]
    by simp
qed


subsection \<open>The query of search\_internal\_resources\<close>

lemma ir_semantic_search_distinct:
  assumes "permuting X" and "distinct (map ir_id tbl)"
  shows "distinct (map (ir_id \<circ> fst) (ir_semantic_search X cos_dist tbl qe thr))"
proof -
  let ?rows = "filter (\<lambda>(ir, d). ir_is_active ir = Some True \<and> 1 - d > thr)
           (List.map_filter (ir_with_distance cos_dist qe) tbl)"
  from assms(1) have perm: "mset (arrange_semantic X ?rows) = mset ?rows"
    by (simp add: permuting_def)
  have "map (ir_id \<circ> fst) (List.map_filter (ir_with_distance cos_dist qe) tbl)
        = map ir_id (filter (\<lambda>e. ir_with_distance cos_dist qe e \<noteq> None) tbl)"
    by (rule map_filter_keys) (auto simp: ir_with_distance_def)
  with assms(2)
  have "distinct (map (ir_id \<circ> fst) (List.map_filter (ir_with_distance cos_dist qe) tbl))"
    by (simp add: distinct_map_filter)
  then have "distinct (map (ir_id \<circ> fst) ?rows)"
    by (rule distinct_map_filter)
  then show ?thesis
    unfolding ir_semantic_search_def branch_keys_dist distinct_map_order_by[of "arrange_semantic X", OF perm] .
qed

lemma ir_fulltext_search_distinct:
  assumes "permuting X" and "distinct (map ir_id tbl)"
  shows "distinct (map (ir_id \<circ> fst) (ir_fulltext_search X fts_match fts_rank tbl qt))"
proof -
  let ?rows = "filter (\<lambda>ir. ir_is_active ir = Some True \<and> fts_match qt ir) tbl"
  from assms(1) have perm: "mset (arrange_fulltext X ?rows) = mset ?rows"
    by (simp add: permuting_def)
  from assms(2) have "distinct (map ir_id ?rows)" by (rule distinct_map_filter)
  then show ?thesis
    unfolding ir_fulltext_search_def branch_keys distinct_map_order_by[of "arrange_fulltext X", OF perm] .
qed

lemma select_ir_hit_id: "ih_id (select_ir_hit j) = join_key (ir_id \<circ> fst) (ir_id \<circ> fst) j"
  by (cases j) (auto simp: select_ir_hit_def Let_def)

lemma select_ir_hit_rank: "ih_rank (select_ir_hit j) = rrf_rank j"
  by (simp add: select_ir_hit_def Let_def)

lemma search_internal_resources_query_Inr:
  assumes "search_internal_resources_query X cos_dist fts_match fts_rank tbl qt qe thr n = Inr hits"
  shows "hits = take (nat n) (order_by (arrange_result X) (\<lambda>h. - ih_rank h)
                   (ir_fused X cos_dist fts_match fts_rank tbl qt qe thr))"
  using assms unfolding search_internal_resources_query_def by (auto split: if_splits)

lemma search_internal_resources_query_returns:
  "0 \<le> n \<Longrightarrow>
   \<exists>hits. search_internal_resources_query X cos_dist fts_match fts_rank tbl qt qe thr n = Inr hits"
  unfolding search_internal_resources_query_def by simp

lemma search_internal_resources_query_rrf:
  assumes "permuting X" and "distinct (map ir_id tbl)"
      and "search_internal_resources_query X cos_dist fts_match fts_rank tbl qt qe thr n = Inr hits"
  shows "rrf_ranking numeric_rrf_term ih_id ih_rank ir_id
           (ir_semantic_search X cos_dist tbl qe thr)
           (ir_fulltext_search X fts_match fts_rank tbl qt) (nat n) hits"
proof -
  from assms(1) have perm: "\<And>xs. mset (arrange_result X xs) = mset xs"
    by (simp add: permuting_def)
  show ?thesis
    unfolding search_internal_resources_query_Inr[OF assms(3)] ir_fused_def
    using rrf_ranking_pipeline[where hid = ih_id and sel = select_ir_hit and hrank = ih_rank
        and m = "nat n" and arrange = "arrange_result X",
        OF ir_semantic_search_distinct[OF assms(1,2)]
        ir_fulltext_search_distinct[OF assms(1,2)] select_ir_hit_id select_ir_hit_rank perm]
    by simp
qed

lemmas ir_search_defs = search_internal_resources_query_def ir_fused_def ir_semantic_search_def
  ir_fulltext_search_def full_outer_join_def row_number_def ir_with_distance_def
  select_ir_hit_def map_filter_def order_by_def numeric_one_over_def div_scale_def



text \<open>
  C2. Every call of \<open>search_experience\<close> and of \<open>search_internal_resources\<close> ends in
  the error of a result type that does not match: the query computes \<open>rank\<close> as a numeric
  (the sum of the quotients \<^verbatim>\<open>1.0 / (60 + rank)\<close>) in the column that \<^verbatim>\<open>RETURNS TABLE\<close>
  declares \<^verbatim>\<open>FLOAT\<close>, column 10 of the one and column 6 of the other. No call returns the
  fused list of its query.
\<close>

theorem search_raises_datatype_mismatch:
  "search_experience X cos_dist fts_match fts_rank tbl qt qe thr n p = Inl (DatatypeMismatch 10)
   \<and> search_internal_resources Y ir_dist ir_match ir_rank resources qt' qe' thr' n'
       = Inl (DatatypeMismatch 6)"
  by (simp add: search_experience_raises search_internal_resources_raises)

text \<open>
  On the example table the query has the rows 1, 3 and 4 with their scores; the score
  of row 1, found first by one branch and second by the other, is the sum of two rounded
  quotients and not the exact sum \<open>1/61 + 1/62\<close>. The call of the function gives the error.
\<close>

lemma search_experience_example:
  "map_sum (\<lambda>e. e) (map (\<lambda>h. (h_id h, h_rank h)))
     (search_experience_query ex_as_scanned ex_dist ex_match ex_rank ex_experience
        ''rate'' [0] (1/2) 10 None)
   = Inr [(1, 162612374405076679 / 5000000000000000000),
          (3, 1639344262295081967 / 100000000000000000000),
          (4, 1612903225806451613 / 100000000000000000000)]
   \<and> (162612374405076679 / 5000000000000000000 :: real) \<noteq> 1/61 + 1/62
   \<and> search_experience ex_as_scanned ex_dist ex_match ex_rank ex_experience
        ''rate'' [0] (1/2) 10 None = Inl (DatatypeMismatch 10)"
  by (simp add: search_defs ex_defs ex_experience_def search_experience_raises)

lemma search_internal_resources_example:
  "map_sum (\<lambda>e. e) (map (\<lambda>h. (ih_id h, ih_rank h)))
     (search_internal_resources_query ex_as_scanned ex_dist ex_ir_match ex_ir_rank
        ex_internal_resources ''crane'' [0] (1/2) 10)
   = Inr [(10, 1639344262295081967 / 50000000000000000000),
          (11, 1612903225806451613 / 100000000000000000000)]
   \<and> search_internal_resources ex_as_scanned ex_dist ex_ir_match ex_ir_rank
        ex_internal_resources ''crane'' [0] (1/2) 10 = Inl (DatatypeMismatch 6)"
  by (simp add: ir_search_defs ex_dist_def ex_ir_match_def ex_ir_rank_def ex_as_scanned_def
      ex_internal_resources_def search_internal_resources_raises)


subsection \<open>The order of the rows\<close>











section \<open>Properties of the embedding queue\<close>

lemmas queue_defs = process_job_def embed_record_def select_record_def single_def record_text_def
  join_truthy_def map_filter_def update_job_def update_embedding_def current_text_def
  stored_vector_def select_pending_def drain_def Let_def

lemmas ex_queue_defs = ex_embed_def ex_embed_ok_def ex_job_def ex_policy_def ex_db_def
  ex_set_text_def ex_mutated_twice_def

lemma length_ex_vector: "length (ex_vector n) = halfvec_dimension"
  by (simp only: ex_vector_def halfvec_dimension_def length_replicate)

lemma content_update_job [simp]: "content (update_job i f d) = content d"
  by (simp add: update_job_def)

lemma select_record_update_job [simp]:
  "select_record (update_job i f d) t r = select_record d t r"
  by (simp add: select_record_def)

lemma single_Some_iff: "single xs = Some x \<longleftrightarrow> xs = [x]"
  by (auto simp: single_def split: list.splits)

lemma record_text_embedding [simp]:
  "record_text t (r\<lparr>r_embedding := x\<rparr>) = record_text t r"
  by (simp add: record_text_def)

lemma filter_id_map_embedding:
  "filter (\<lambda>r. r_id r = i) (map (\<lambda>r. if r_id r = i then r\<lparr>r_embedding := x\<rparr> else r) rows)
   = map (\<lambda>r. r\<lparr>r_embedding := x\<rparr>) (filter (\<lambda>r. r_id r = i) rows)"
  by (induction rows) auto

lemma select_record_update_embedding:
  assumes "select_record d t i = Some r" and "length v = halfvec_dimension"
  shows "select_record (update_embedding t i v d) t i = Some (r\<lparr>r_embedding := Some v\<rparr>)"
proof -
  from assms(1) obtain rows where rows: "content d t = Some rows"
    and one: "filter (\<lambda>r. r_id r = i) rows = [r]"
    by (auto simp: select_record_def single_Some_iff split: option.splits)
  with assms(2) show ?thesis
    by (simp add: select_record_def update_embedding_def filter_id_map_embedding single_def)
qed

text \<open>A vector of another dimension than the column's is refused: nothing is written.\<close>

lemma update_embedding_refused:
  "length v \<noteq> halfvec_dimension \<Longrightarrow> update_embedding t i v d = d"
  by (simp add: update_embedding_def)

lemma embed_record_Inr:
  assumes "embed_record provider job d = Inr d2"
  shows "\<exists>r v. select_record d (j_table_name job) (j_record_id job) = Some r
           \<and> record_text (j_table_name job) r \<noteq> []
           \<and> provider (record_text (j_table_name job) r) = Embedding v
           \<and> d2 = update_embedding (j_table_name job) (j_record_id job) v d"
  using assms unfolding embed_record_def
  by (auto simp: Let_def split: option.splits if_splits embedding_response.splits)

text \<open>
  C4. When a job completes, the provider was asked for the embedding of the text that
  the record's designated fields hold when the job is processed: the function reads the
  record after it has claimed the job, and a job row carries no text. If the vector has
  the dimension of the column, so that the database accepts it, it is the vector stored
  on the record afterwards. The text is still the record's text, and the job's row is
  marked completed.
\<close>

theorem process_job_embeds_current_text:
  assumes "process_job provider now job d = (True, d')"
  shows "(\<exists>text v. current_text d (j_table_name job) (j_record_id job) = Some text
           \<and> provider text = Embedding v
           \<and> (length v = halfvec_dimension \<longrightarrow>
                 stored_vector d' (j_table_name job) (j_record_id job) = Some v)
           \<and> current_text d' (j_table_name job) (j_record_id job) = Some text)
       \<and> (\<forall>j \<in> set (embedding_queue d'). j_id j = j_id job \<longrightarrow>
              j_status j = JobCompleted \<and> j_processed_at j = Some now)"
proof -
  let ?d1 = "update_job (j_id job) (\<lambda>j. j\<lparr>j_status := JobProcessing\<rparr>) d"
  from assms obtain d2 where e: "embed_record provider job ?d1 = Inr d2"
    and d': "d' = update_job (j_id job)
                    (\<lambda>j. j\<lparr>j_status := JobCompleted, j_processed_at := Some now\<rparr>) d2"
    unfolding process_job_def by (auto simp: Let_def split: sum.splits)
  from embed_record_Inr[OF e] obtain r v where
    r: "select_record d (j_table_name job) (j_record_id job) = Some r"
    and v: "provider (record_text (j_table_name job) r) = Embedding v"
    and d2: "d2 = update_embedding (j_table_name job) (j_record_id job) v ?d1"
    by auto
  from r have r1: "select_record ?d1 (j_table_name job) (j_record_id job) = Some r" by simp
  have aft: "current_text d' (j_table_name job) (j_record_id job)
             = Some (record_text (j_table_name job) r)"
  proof (cases "length v = halfvec_dimension")
    case True
    from select_record_update_embedding[OF r1 True]
    show ?thesis unfolding d' d2 by (simp add: current_text_def)
  next
    case False
    with r1 show ?thesis
      unfolding d' d2 by (simp add: update_embedding_refused current_text_def)
  qed
  have vec: "length v = halfvec_dimension \<longrightarrow>
               stored_vector d' (j_table_name job) (j_record_id job) = Some v"
  proof
    assume l: "length v = halfvec_dimension"
    from select_record_update_embedding[OF r1 l]
    show "stored_vector d' (j_table_name job) (j_record_id job) = Some v"
      unfolding d' d2 by (simp add: stored_vector_def)
  qed
  from r have cur: "current_text d (j_table_name job) (j_record_id job)
                    = Some (record_text (j_table_name job) r)"
    by (simp add: current_text_def)
  have row: "\<forall>j \<in> set (embedding_queue d'). j_id j = j_id job \<longrightarrow>
              j_status j = JobCompleted \<and> j_processed_at j = Some now"
    unfolding d' by (auto simp: update_job_def)
  from cur v vec aft row show ?thesis by blast
qed

text \<open>
  The function does not read the result of the write of the vector. If the provider's
  vector has another dimension than the column's, the write is refused, the record
  keeps the vector it had, and the job is marked completed all the same.
\<close>

lemma process_job_refused_write:
  assumes "process_job provider now job d = (True, d')"
      and "current_text d (j_table_name job) (j_record_id job) = Some text"
      and "provider text = Embedding v" and "length v \<noteq> halfvec_dimension"
  shows "stored_vector d' (j_table_name job) (j_record_id job)
         = stored_vector d (j_table_name job) (j_record_id job)"
proof -
  let ?d1 = "update_job (j_id job) (\<lambda>j. j\<lparr>j_status := JobProcessing\<rparr>) d"
  from assms(1) obtain d2 where e: "embed_record provider job ?d1 = Inr d2"
    and d': "d' = update_job (j_id job)
                    (\<lambda>j. j\<lparr>j_status := JobCompleted, j_processed_at := Some now\<rparr>) d2"
    unfolding process_job_def by (auto simp: Let_def split: sum.splits)
  from embed_record_Inr[OF e] obtain r w where
    r: "select_record d (j_table_name job) (j_record_id job) = Some r"
    and w: "provider (record_text (j_table_name job) r) = Embedding w"
    and d2: "d2 = update_embedding (j_table_name job) (j_record_id job) w ?d1"
    by auto
  from r assms(2,3) w have "w = v" by (simp add: current_text_def)
  with assms(4) show ?thesis
    unfolding d' d2 by (simp add: update_embedding_refused stored_vector_def)
qed

lemma update_job_status_absorb:
  "update_job i (\<lambda>j. j\<lparr>j_status := s'\<rparr>) (update_job i (\<lambda>j. j\<lparr>j_status := s\<rparr>) d)
   = update_job i (\<lambda>j. j\<lparr>j_status := s'\<rparr>) d"
  by (simp add: update_job_def comp_def cong: if_cong)

text \<open>
  C5, as the code has it. The write that claims a job is keyed on the job's id alone.
  A drain handles a job that it has selected in the same way and with the same result
  whatever status the row has by then: nothing is conditional on the current status.
\<close>

theorem claim_ignores_current_status:
  "process_job provider now job (update_job (j_id job) (\<lambda>j. j\<lparr>j_status := s\<rparr>) d)
   = process_job provider now job d"
  unfolding process_job_def update_job_status_absorb ..


lemma embedding_queue_update_embedding [simp]:
  "embedding_queue (update_embedding t i v d) = embedding_queue d"
  by (simp add: update_embedding_def split: option.splits)

lemma embed_record_queue:
  "embed_record provider job d = Inr d2 \<Longrightarrow> embedding_queue d2 = embedding_queue d"
  by (auto dest!: embed_record_Inr)

lemma embed_record_Inl:
  assumes "embed_record provider job d = Inl err"
  shows "(select_record d (j_table_name job) (j_record_id job) = None
            \<and> err = RecordNotFound (j_table_name job) (j_record_id job))
       \<or> (\<exists>r. select_record d (j_table_name job) (j_record_id job) = Some r
            \<and> record_text (j_table_name job) r = [] \<and> err = NoTextContent)
       \<or> (\<exists>r e. select_record d (j_table_name job) (j_record_id job) = Some r
            \<and> provider (record_text (j_table_name job) r) = NotOk e \<and> err = OpenAIError e)
       \<or> (\<exists>r m. select_record d (j_table_name job) (j_record_id job) = Some r
            \<and> provider (record_text (j_table_name job) r) = FetchThrows m \<and> err = FetchFailed m)"
  using assms unfolding embed_record_def
  by (auto simp: Let_def split: option.splits if_splits embedding_response.splits)

lemma update_job_other:
  "j \<in> set (embedding_queue d) \<Longrightarrow> j_id j \<noteq> i \<Longrightarrow> j \<in> set (embedding_queue (update_job i f d))"
  by (auto simp: update_job_def image_iff intro!: bexI[of _ j])

lemma process_job_other:
  assumes "j \<in> set (embedding_queue d)" and "j_id j \<noteq> j_id job"
  shows "j \<in> set (embedding_queue (snd (process_job provider now job d)))"
proof (cases "embed_record provider job (update_job (j_id job) (\<lambda>j. j\<lparr>j_status := JobProcessing\<rparr>) d)")
  case (Inl err)
  with assms show ?thesis
    by (simp add: process_job_def Let_def update_job_other)
next
  case (Inr d2)
  from embed_record_queue[OF Inr] assms have "j \<in> set (embedding_queue d2)"
    by (simp add: update_job_other)
  with assms Inr show ?thesis
    by (simp add: process_job_def Let_def update_job_other)
qed

lemma process_jobs_other:
  assumes "j \<in> set (embedding_queue d)" and "j_id j \<notin> j_id ` set jobs"
  shows "j \<in> set (embedding_queue (snd (snd (process_jobs provider now jobs p f d))))"
  using assms
proof (induction jobs arbitrary: p f d)
  case Nil
  then show ?case by simp
next
  case (Cons job jobs)
  obtain ok d1 where pj: "process_job provider now job d = (ok, d1)"
    by (cases "process_job provider now job d")
  from Cons.prems process_job_other[of j d job provider now] pj
  have "j \<in> set (embedding_queue d1)" by auto
  with Cons.IH[of d1] Cons.prems(2) pj show ?case
    by (cases ok) auto
qed

lemma select_pending_pending: "j \<in> set (select_pending d) \<Longrightarrow> j_status j = JobPending"
  unfolding select_pending_def by (auto dest: in_set_takeD)

lemma select_pending_subset: "set (select_pending d) \<subseteq> set (embedding_queue d)"
  unfolding select_pending_def by (auto dest: in_set_takeD)

lemma drain_keeps_failed:
  assumes "distinct (map j_id (embedding_queue d))"
      and "j \<in> set (embedding_queue d)" and "j_status j = JobFailed"
  shows "j \<in> set (embedding_queue (snd (drain provider now d)))"
proof -
  have "j_id j \<notin> j_id ` set (select_pending d)"
  proof
    assume "j_id j \<in> j_id ` set (select_pending d)"
    then obtain j' where j': "j' \<in> set (select_pending d)" "j_id j' = j_id j" by auto
    with select_pending_subset have "j' \<in> set (embedding_queue d)" by auto
    with assms(1,2) j'(2) have "j' = j" by (auto simp: distinct_map dest: inj_onD)
    with select_pending_pending[OF j'(1)] assms(3) show False by simp
  qed
  from process_jobs_other[OF assms(2) this, of provider now 0 0]
  show ?thesis
    by (auto simp: drain_def Let_def split: prod.splits)
qed

text \<open>
  C6, as the code has it. A job completes only if its record is found, its text is not
  empty and the provider returns a vector; otherwise, for each of the reasons, the
  job's row is marked failed, with the error stored and \<open>retry_count\<close> set to the selected
  row's count (0 if NULL) plus one. A drain selects pending jobs only; a failed job is
  never selected again and every later drain leaves its row as it is, whatever its
  \<open>retry_count\<close>.
\<close>

theorem failed_job_marked_and_not_retried:
  assumes "process_job provider now job d = (ok, d')"
  shows "(if ok
          then (\<exists>r v. select_record d (j_table_name job) (j_record_id job) = Some r
                  \<and> record_text (j_table_name job) r \<noteq> []
                  \<and> provider (record_text (j_table_name job) r) = Embedding v)
          else (\<exists>err.
                 ((select_record d (j_table_name job) (j_record_id job) = None
                     \<and> err = RecordNotFound (j_table_name job) (j_record_id job))
                  \<or> (\<exists>r. select_record d (j_table_name job) (j_record_id job) = Some r
                     \<and> record_text (j_table_name job) r = [] \<and> err = NoTextContent)
                  \<or> (\<exists>r e. select_record d (j_table_name job) (j_record_id job) = Some r
                     \<and> provider (record_text (j_table_name job) r) = NotOk e
                     \<and> err = OpenAIError e)
                  \<or> (\<exists>r m. select_record d (j_table_name job) (j_record_id job) = Some r
                     \<and> provider (record_text (j_table_name job) r) = FetchThrows m
                     \<and> err = FetchFailed m))
                 \<and> (\<forall>j \<in> set (embedding_queue d'). j_id j = j_id job \<longrightarrow>
                       j_status j = JobFailed \<and> j_error_message j = Some err
                       \<and> j_retry_count j
                           = Some ((case j_retry_count job of None \<Rightarrow> 0 | Some n \<Rightarrow> n) + 1))))
       \<and> (\<forall>j \<in> set (select_pending d'). j_status j = JobPending)
       \<and> (distinct (map j_id (embedding_queue d')) \<longrightarrow>
            (\<forall>j \<in> set (embedding_queue d'). j_status j = JobFailed \<longrightarrow>
               j \<in> set (embedding_queue (snd (drain provider' now' d')))))"
proof (intro conjI)
  let ?d1 = "update_job (j_id job) (\<lambda>j. j\<lparr>j_status := JobProcessing\<rparr>) d"
  show "if ok
          then (\<exists>r v. select_record d (j_table_name job) (j_record_id job) = Some r
                  \<and> record_text (j_table_name job) r \<noteq> []
                  \<and> provider (record_text (j_table_name job) r) = Embedding v)
          else (\<exists>err.
                 ((select_record d (j_table_name job) (j_record_id job) = None
                     \<and> err = RecordNotFound (j_table_name job) (j_record_id job))
                  \<or> (\<exists>r. select_record d (j_table_name job) (j_record_id job) = Some r
                     \<and> record_text (j_table_name job) r = [] \<and> err = NoTextContent)
                  \<or> (\<exists>r e. select_record d (j_table_name job) (j_record_id job) = Some r
                     \<and> provider (record_text (j_table_name job) r) = NotOk e
                     \<and> err = OpenAIError e)
                  \<or> (\<exists>r m. select_record d (j_table_name job) (j_record_id job) = Some r
                     \<and> provider (record_text (j_table_name job) r) = FetchThrows m
                     \<and> err = FetchFailed m))
                 \<and> (\<forall>j \<in> set (embedding_queue d'). j_id j = j_id job \<longrightarrow>
                       j_status j = JobFailed \<and> j_error_message j = Some err
                       \<and> j_retry_count j
                           = Some ((case j_retry_count job of None \<Rightarrow> 0 | Some n \<Rightarrow> n) + 1)))"
  proof (cases "embed_record provider job ?d1")
    case (Inr d2)
    with assms have "ok" by (simp add: process_job_def Let_def)
    with embed_record_Inr[OF Inr] show ?thesis by auto
  next
    case (Inl err)
    with assms have ok: "\<not> ok"
      and d': "d' = update_job (j_id job)
                 (\<lambda>j. j\<lparr>j_status := JobFailed, j_error_message := Some err,
                        j_retry_count :=
                          Some ((case j_retry_count job of None \<Rightarrow> 0 | Some n \<Rightarrow> n) + 1)\<rparr>) ?d1"
      by (auto simp: process_job_def Let_def)
    have rows: "\<forall>j \<in> set (embedding_queue d'). j_id j = j_id job \<longrightarrow>
                       j_status j = JobFailed \<and> j_error_message j = Some err
                       \<and> j_retry_count j
                           = Some ((case j_retry_count job of None \<Rightarrow> 0 | Some n \<Rightarrow> n) + 1)"
      unfolding d' by (auto simp: update_job_def)
    from embed_record_Inl[OF Inl] rows ok show ?thesis
      by (simp only: select_record_update_job if_False) blast
  qed
  show "\<forall>j \<in> set (select_pending d'). j_status j = JobPending"
    by (auto dest: select_pending_pending)
  show "distinct (map j_id (embedding_queue d')) \<longrightarrow>
            (\<forall>j \<in> set (embedding_queue d'). j_status j = JobFailed \<longrightarrow>
               j \<in> set (embedding_queue (snd (drain provider' now' d'))))"
    by (auto intro: drain_keeps_failed)
qed

text \<open>
  The job for policy 7 was queued when the description was \<open>rate 100\<close>; the description
  was changed twice before the drain. The provider's vectors have 1536 entries, and the
  stored vector is that of the last text.
\<close>

theorem process_job_embeds_current_text_witness:
  "\<exists>d'. process_job ex_embed_1536 100 ex_job ex_mutated_twice = (True, d')
       \<and> current_text ex_mutated_twice ''policies'' 7 = Some ''travel rate is now 120''
       \<and> ex_embed_1536 ''travel rate is now 120'' = Embedding (ex_vector 22)
       \<and> length (ex_vector 22) = halfvec_dimension
       \<and> stored_vector d' ''policies'' 7 = Some (ex_vector 22)"
proof -
  have "fst (process_job ex_embed_1536 100 ex_job ex_mutated_twice) = True"
    by (simp add: queue_defs ex_queue_defs ex_embed_1536_def)
  then obtain d' where p: "process_job ex_embed_1536 100 ex_job ex_mutated_twice = (True, d')"
    by (cases "process_job ex_embed_1536 100 ex_job ex_mutated_twice") auto
  have t: "current_text ex_mutated_twice ''policies'' 7 = Some ''travel rate is now 120''"
    by (simp add: queue_defs ex_queue_defs)
  have e: "ex_embed_1536 ''travel rate is now 120'' = Embedding (ex_vector 22)"
    by (simp add: ex_embed_1536_def eval_nat_numeral)
  have l: "length (ex_vector 22) = halfvec_dimension"
    by (rule length_ex_vector)
  have n: "j_table_name ex_job = ''policies''" "j_record_id ex_job = 7"
    by (simp_all add: ex_job_def)
  from process_job_embeds_current_text[OF p] t e l
  have sv: "stored_vector d' ''policies'' 7 = Some (ex_vector 22)"
    unfolding n by auto
  show ?thesis
    by (intro exI[of _ d'] conjI p t e l sv)
qed

text \<open>
  With a provider whose vector for the same text has one entry, the job is completed
  and the record keeps the vector it had when the job was queued.
\<close>

lemma refused_write_example:
  "fst (process_job ex_embed 100 ex_job ex_mutated_twice) = True
   \<and> ex_embed ''travel rate is now 120'' = Embedding [22]
   \<and> stored_vector ex_mutated_twice ''policies'' 7 = Some [0]
   \<and> stored_vector (snd (process_job ex_embed 100 ex_job ex_mutated_twice)) ''policies'' 7
       = Some [0]
   \<and> map j_status (embedding_queue (snd (process_job ex_embed 100 ex_job ex_mutated_twice)))
       = [JobCompleted]"
  by (simp add: queue_defs ex_queue_defs halfvec_dimension_def)

text \<open>
  C5 as stated fails. Two drains select before either claims, so both hold the pending
  job 1. The first processes it and completes it; the second then claims the completed
  job, processes it again and writes its own completion time.
\<close>

theorem two_drains_process_same_job:
  "select_pending (ex_db ''v1'') = [ex_job]
   \<and> fst (process_jobs ex_embed 100 (select_pending (ex_db ''v1'')) 0 0 (ex_db ''v1'')) = 1
   \<and> map j_status (embedding_queue (snd (snd
         (process_jobs ex_embed 100 (select_pending (ex_db ''v1'')) 0 0 (ex_db ''v1'')))))
       = [JobCompleted]
   \<and> fst (process_jobs ex_embed 200 (select_pending (ex_db ''v1'')) 0 0
         (snd (snd (process_jobs ex_embed 100 (select_pending (ex_db ''v1'')) 0 0
            (ex_db ''v1''))))) = 1
   \<and> map j_processed_at (embedding_queue (snd (snd
         (process_jobs ex_embed 200 (select_pending (ex_db ''v1'')) 0 0
            (snd (snd (process_jobs ex_embed 100 (select_pending (ex_db ''v1'')) 0 0
               (ex_db ''v1''))))))))
       = [Some 200]"
  by (simp add: queue_defs ex_queue_defs)

text \<open>
  The provider refuses the text of policy 7: the job fails with \<open>retry_count\<close> 1, no
  pending job is left, and a later drain keeps every row of the queue.
\<close>

theorem failed_job_marked_and_not_retried_witness:
  "\<exists>d'. process_job ex_embed 100 ex_job (ex_db ''quota'') = (False, d')
       \<and> map j_status (embedding_queue d') = [JobFailed]
       \<and> map j_error_message (embedding_queue d') = [Some (OpenAIError ''rate limit'')]
       \<and> map j_retry_count (embedding_queue d') = [Some 1]
       \<and> distinct (map j_id (embedding_queue d'))
       \<and> select_pending d' = []
       \<and> set (embedding_queue d') \<subseteq> set (embedding_queue (snd (drain ex_embed_ok 200 d')))"
proof -
  have "fst (process_job ex_embed 100 ex_job (ex_db ''quota'')) = False"
    by (simp add: queue_defs ex_queue_defs)
  then obtain d' where p: "process_job ex_embed 100 ex_job (ex_db ''quota'') = (False, d')"
    by (cases "process_job ex_embed 100 ex_job (ex_db ''quota'')") auto
  then have d': "d' = snd (process_job ex_embed 100 ex_job (ex_db ''quota''))" by simp
  have st: "map j_status (embedding_queue d') = [JobFailed]"
    unfolding d' by (simp add: queue_defs ex_queue_defs)
  have em: "map j_error_message (embedding_queue d') = [Some (OpenAIError ''rate limit'')]"
    unfolding d' by (simp add: queue_defs ex_queue_defs)
  have rc: "map j_retry_count (embedding_queue d') = [Some 1]"
    unfolding d' by (simp add: queue_defs ex_queue_defs)
  have ds: "distinct (map j_id (embedding_queue d'))"
    unfolding d' by (simp add: queue_defs ex_queue_defs)
  have sp: "select_pending d' = []"
    unfolding d' by (simp add: queue_defs ex_queue_defs)
  from st have failed: "\<forall>j \<in> set (embedding_queue d'). j_status j = JobFailed"
    by (metis (no_types, lifting) image_iff list.set_map list.simps(15) empty_set singletonD)
  from failed_job_marked_and_not_retried[OF p, of ex_embed_ok 200] ds failed
  have sub: "set (embedding_queue d') \<subseteq> set (embedding_queue (snd (drain ex_embed_ok 200 d')))"
    by auto
  show ?thesis
    by (intro exI[of _ d'] conjI p st em rc ds sp sub)
qed

text \<open>
  C6 as stated fails. With the maximum of 3 that the specification's test names, a job
  that has failed once would be tried again. The job fails once; the next drain, with a provider that would succeed,
  finds no pending job and leaves the job failed with \<open>retry_count\<close> 1.
\<close>

theorem failed_once_never_retried:
  "fst (drain ex_embed 100 (ex_db ''quota'')) = Drained 0 1 1
   \<and> map j_status (embedding_queue (snd (drain ex_embed 100 (ex_db ''quota'')))) = [JobFailed]
   \<and> map j_retry_count (embedding_queue (snd (drain ex_embed 100 (ex_db ''quota''))))
       = [Some 1]
   \<and> fst (drain ex_embed_ok 200 (snd (drain ex_embed 100 (ex_db ''quota'')))) = NoPendingJobs
   \<and> map j_status (embedding_queue
         (snd (drain ex_embed_ok 200 (snd (drain ex_embed 100 (ex_db ''quota''))))))
       = [JobFailed]
   \<and> map j_retry_count (embedding_queue
         (snd (drain ex_embed_ok 200 (snd (drain ex_embed 100 (ex_db ''quota''))))))
       = [Some 1]"
  by (simp add: queue_defs ex_queue_defs)


section \<open>Properties of the validation response handler\<close>

lemmas handler_defs = post_handler_def getValidationByToken_def single_def record_response_def
  update_validation_def validation_status_of_def insert_experience_def entity_type_check_def
  correction_entry_def derived_entries_def trim_def is_space_def Let_def

lemmas ex_handler_defs = ex_embed_ok_def ex_embed_down_def ex_request_def ex_store_def
  ex_form_def ex_env_def

lemma filter_map_preserve:
  assumes "\<And>x. P (h x) = P x"
  shows "filter P (map h xs) = map h (filter P xs)"
  using assms by (induction xs) auto

lemma experience_rows_update_validation [simp]:
  "experience_rows (update_validation i f st) = experience_rows st"
  by (simp add: update_validation_def)

lemma experience_rows_record_response [simp]:
  "experience_rows (record_response t i a c st) = experience_rows st"
  by (simp add: record_response_def Let_def split: option.splits)

lemma derived_entries_update_validation [simp]:
  "derived_entries (update_validation i f st) k = derived_entries st k"
  by (simp add: derived_entries_def)

lemma derived_entries_record_response [simp]:
  "derived_entries (record_response t i a c st) k = derived_entries st k"
  by (simp add: derived_entries_def)

lemma getValidationByToken_update_validation:
  assumes "getValidationByToken st token = Some v"
      and "\<And>x. v_message_id (f x) = v_message_id x"
  shows "getValidationByToken (update_validation i f st) token
         = Some (if v_id v = i then f v else v)"
proof -
  from assms(1) have one: "filter (\<lambda>v. v_message_id v = Some token) (validation_requests st) = [v]"
    by (simp add: getValidationByToken_def single_Some_iff)
  have "filter (\<lambda>v. v_message_id v = Some token)
          (map (\<lambda>v. if v_id v = i then f v else v) (validation_requests st))
        = map (\<lambda>v. if v_id v = i then f v else v)
            (filter (\<lambda>v. v_message_id v = Some token) (validation_requests st))"
    by (rule filter_map_preserve) (simp add: assms(2))
  with one show ?thesis
    by (simp add: getValidationByToken_def update_validation_def single_def)
qed

text \<open>The request as the first statement leaves it.\<close>

lemma getValidationByToken_record_response:
  assumes "getValidationByToken st token = Some v"
  shows "\<exists>v1. getValidationByToken (record_response t (v_id v) a c st) token = Some v1
           \<and> v_id v1 = v_id v \<and> v_entity_type v1 = v_entity_type v
           \<and> v_entity_id v1 = v_entity_id v
           \<and> v_experience_id v1 = v_experience_id v
           \<and> v_experience_created v1 = v_experience_created v
           \<and> v_validation_status v1
               = (case a of None \<Rightarrow> None
                  | Some s \<Rightarrow> (case validation_status_of s of
                                 None \<Rightarrow> v_validation_status v | Some x \<Rightarrow> Some x))"
proof (cases a)
  case None
  with getValidationByToken_update_validation[OF assms, of _ "v_id v"] show ?thesis
    by (simp add: record_response_def Let_def)
next
  case (Some s)
  show ?thesis
  proof (cases "validation_status_of s")
    case None
    with Some assms show ?thesis by (simp add: record_response_def Let_def)
  next
    case (Some x)
    with \<open>a = Some s\<close> getValidationByToken_update_validation[OF assms, of _ "v_id v"]
    show ?thesis by (simp add: record_response_def Let_def)
  qed
qed


lemma trim_Nil [simp]: "trim [] = []"
  by (simp add: trim_def)

lemma getValidationByToken_experience_rows [simp]:
  "getValidationByToken (st\<lparr>experience_rows := xs\<rparr>) token = getValidationByToken st token"
  by (simp add: getValidationByToken_def)

lemma post_handler_found:
  assumes "getValidationByToken st token = Some v" and "token \<noteq> []"
      and "f_token form = Some token" and "f_corrections form = Some corrections"
      and "trim corrections \<noteq> []"
  shows "post_handler e form st =
     (let st1 = record_response (env_now e) (v_id v) (f_approval_status form) (Some corrections) st
      in case env_provider e corrections of
           FetchThrows msg \<Rightarrow> (UncaughtException500, st1)
         | NotOk errorText \<Rightarrow> (SuccessPage, st1)
         | Embedding embedding \<Rightarrow>
             (case insert_experience (correction_entry e v corrections embedding) st1 of
                None \<Rightarrow> (SuccessPage, st1)
              | Some (experience, st2) \<Rightarrow>
                  (SuccessPage,
                   update_validation (v_id v)
                     (\<lambda>v. v\<lparr>v_experience_created := Some True,
                            v_experience_id := Some (e_id experience)\<rparr>)
                     st2)))"
proof -
  from assms(5) have "corrections \<noteq> []" by auto
  with assms show ?thesis
    by (simp add: post_handler_def Let_def)
qed


text \<open>
  C8, as the code has it. The status update, the insert of the derived entry and the
  link are three statements in this order, with no transaction around them. If the
  provider gives no vector or the database refuses the row, the status update and the
  recorded corrections stay, with no derived entry and no link.
\<close>

theorem post_handler_writes_are_separate:
  assumes tok: "getValidationByToken st token = Some v" and ne: "token \<noteq> []"
      and ft: "f_token form = Some token" and fc: "f_corrections form = Some corrections"
      and nb: "trim corrections \<noteq> []"
      and fail: "(\<forall>embedding. env_provider e corrections \<noteq> Embedding embedding)
                 \<or> env_new_uuid e \<in> set (map e_id (experience_rows st))
                 \<or> \<not> entity_type_check (Some (v_entity_type v))"
  shows "snd (post_handler e form st)
           = record_response (env_now e) (v_id v) (f_approval_status form) (Some corrections) st
       \<and> derived_entries (snd (post_handler e form st)) (v_id v) = derived_entries st (v_id v)
       \<and> (\<exists>v'. getValidationByToken (snd (post_handler e form st)) token = Some v'
              \<and> v_experience_id v' = v_experience_id v
              \<and> v_experience_created v' = v_experience_created v
              \<and> v_validation_status v'
                  = (case f_approval_status form of None \<Rightarrow> None
                     | Some s \<Rightarrow> (case validation_status_of s of
                                    None \<Rightarrow> v_validation_status v | Some x \<Rightarrow> Some x)))"
proof -
  let ?st1 = "record_response (env_now e) (v_id v) (f_approval_status form) (Some corrections) st"
  have ins: "insert_experience (correction_entry e v corrections embedding) ?st1 = None"
    if "env_new_uuid e \<in> set (map e_id (experience_rows st))
        \<or> \<not> entity_type_check (Some (v_entity_type v))" for embedding
    using that by (auto simp: insert_experience_def correction_entry_def)
  have eq: "snd (post_handler e form st) = ?st1"
    unfolding post_handler_found[OF tok ne ft fc nb]
    using fail ins by (auto simp: Let_def split: embedding_response.splits)
  from getValidationByToken_record_response[OF tok, of "env_now e" "f_approval_status form"
      "Some corrections"]
  show ?thesis
    unfolding eq by auto
qed



text \<open>The provider is down: the request is updated, nothing is derived or linked.\<close>

theorem post_handler_writes_are_separate_witness:
  "\<exists>v. getValidationByToken (ex_store (ex_request ''policy'' (Some Sent) (Some 1000))) ''tok''
          = Some v
      \<and> env_provider (ex_env ex_embed_down 10 100) ''rate is actually 120'' = NotOk ''unavailable''
      \<and> map v_validation_status (validation_requests
           (snd (post_handler (ex_env ex_embed_down 10 100) ex_form
              (ex_store (ex_request ''policy'' (Some Sent) (Some 1000))))))
         = [Some Updated]
      \<and> derived_entries
           (snd (post_handler (ex_env ex_embed_down 10 100) ex_form
              (ex_store (ex_request ''policy'' (Some Sent) (Some 1000))))) 1
         = []"
proof -
  let ?st = "ex_store (ex_request ''policy'' (Some Sent) (Some 1000))"
  let ?e = "ex_env ex_embed_down 10 100"
  have "\<exists>v. getValidationByToken ?st ''tok'' = Some v \<and> v_id v = 1"
    by (simp add: handler_defs ex_handler_defs)
  then obtain v where v: "getValidationByToken ?st ''tok'' = Some v" "v_id v = 1"
    by blast
  have ne: "''tok'' \<noteq> []" by simp
  have ft: "f_token ex_form = Some ''tok''" by (simp add: ex_form_def)
  have fc: "f_corrections ex_form = Some ''rate is actually 120''" by (simp add: ex_form_def)
  have nb: "trim ''rate is actually 120'' \<noteq> []" by (simp add: trim_def is_space_def)
  have down: "env_provider ?e ''rate is actually 120'' = NotOk ''unavailable''"
    by (simp add: ex_env_def ex_embed_down_def)
  then have fail: "(\<forall>embedding. env_provider ?e ''rate is actually 120'' \<noteq> Embedding embedding)
                 \<or> env_new_uuid ?e \<in> set (map e_id (experience_rows ?st))
                 \<or> \<not> entity_type_check (Some (v_entity_type v))"
    by simp
  from post_handler_writes_are_separate[OF v(1) ne ft fc nb fail]
  have "derived_entries (snd (post_handler ?e ex_form ?st)) (v_id v) = derived_entries ?st (v_id v)"
    by blast
  then have d: "derived_entries (snd (post_handler ?e ex_form ?st)) 1 = []"
    by (simp add: v(2) derived_entries_def ex_store_def)
  have s: "map v_validation_status (validation_requests (snd (post_handler ?e ex_form ?st)))
           = [Some Updated]"
    by (simp add: handler_defs ex_handler_defs)
  show ?thesis
    by (intro exI[of _ v] conjI v(1) down s d)
qed

text \<open>
  C8 as stated fails. The request is about an experience entry, an entity type that the
  table of entries refuses: the handler answers with the success page, the request is
  updated with the corrections, and there is no entry and no link.
\<close>

theorem status_written_without_entry:
  "fst ex_refused_insert = SuccessPage
   \<and> map v_validation_status (validation_requests (snd ex_refused_insert)) = [Some Updated]
   \<and> map v_corrections_provided (validation_requests (snd ex_refused_insert))
       = [Some ''rate is actually 120'']
   \<and> map v_experience_id (validation_requests (snd ex_refused_insert)) = [None]
   \<and> experience_rows (snd ex_refused_insert) = []"
  by (simp add: ex_refused_insert_def handler_defs ex_handler_defs)


subsection \<open>Expiry\<close>

lemma active_validations_set:
  "set (active_validations t proposals vrs)
   = {active_row t vr p | vr p. vr \<in> set vrs \<and> p \<in> set proposals
        \<and> (v_validation_status vr = Some Pending \<or> v_validation_status vr = Some Sent)
        \<and> v_proposal_id vr = Some (p_id p)}"
  unfolding active_validations_def Let_def by auto

text \<open>
  The code's own reading of expiry. A request with a proposal whose stored status is
  pending or sent and whose \<open>expires_at\<close> has passed is reported by the view
  \<open>active_validations\<close> with the derived status \<open>expired\<close>; the stored status is as it was.
\<close>

lemma active_validations_reports_expired:
  assumes "vr \<in> set vrs"
      and "v_validation_status vr = Some Pending \<or> v_validation_status vr = Some Sent"
      and "v_expires_at vr = Some x" and "x < t"
      and "p \<in> set proposals" and "v_proposal_id vr = Some (p_id p)"
  shows "active_row t vr p \<in> set (active_validations t proposals vrs)
       \<and> av_actual_status (active_row t vr p) = ''expired''
       \<and> av_validation_status (active_row t vr p) = v_validation_status vr"
proof (intro conjI)
  from assms show "active_row t vr p \<in> set (active_validations t proposals vrs)"
    unfolding active_validations_set by blast
  from assms(3,4) show "av_actual_status (active_row t vr p) = ''expired''"
    by (simp add: active_row_def actual_status_def)
  show "av_validation_status (active_row t vr p) = v_validation_status vr"
    by (simp add: active_row_def)
qed

text \<open>
  C7. Request 1 was sent with token \<open>tok\<close>, expired at time 50 and has no response; at
  time 100 its stored status is still \<open>sent\<close> and the view \<open>active_validations\<close> reports
  it as \<open>expired\<close>. The form with its token arrives at time 100. The handler does not
  answer with its page for an invalid or expired link: it answers with the success page,
  sets the status to \<open>updated\<close>, records the time of the response and creates an entry
  derived from the request.
\<close>

theorem late_response_is_applied:
  "map v_validation_status (validation_requests
      (ex_store (ex_request ''policy'' (Some Sent) (Some 50)))) = [Some Sent]
   \<and> map v_expires_at (validation_requests
      (ex_store (ex_request ''policy'' (Some Sent) (Some 50)))) = [Some 50]
   \<and> map v_response_received_at (validation_requests
      (ex_store (ex_request ''policy'' (Some Sent) (Some 50)))) = [None]
   \<and> map av_actual_status (active_validations 100 ex_proposals (validation_requests
      (ex_store (ex_request ''policy'' (Some Sent) (Some 50))))) = [''expired'']
   \<and> env_now (ex_env ex_embed_1536 100 100) = 100
   \<and> f_token ex_form = Some ''tok''
   \<and> ex_late_delivery
       = post_handler (ex_env ex_embed_1536 100 100) ex_form
           (ex_store (ex_request ''policy'' (Some Sent) (Some 50)))
   \<and> fst ex_late_delivery \<noteq> InvalidOrExpiredLink404
   \<and> fst ex_late_delivery = SuccessPage
   \<and> map v_validation_status (validation_requests (snd ex_late_delivery)) = [Some Updated]
   \<and> map v_response_received_at (validation_requests (snd ex_late_delivery)) = [Some 100]
   \<and> map v_experience_created (validation_requests (snd ex_late_delivery)) = [Some True]
   \<and> map e_source_id (experience_rows (snd ex_late_delivery)) = [Some 1]"
  by (simp add: ex_late_delivery_def handler_defs ex_handler_defs ex_embed_1536_def
      active_validations_def active_row_def actual_status_def ex_proposals_def)


section \<open>Properties of the Teams webhook\<close>

lemma webhook_status_updated:
  "a \<noteq> Value ''approved'' \<Longrightarrow> a \<noteq> Value ''rejected'' \<Longrightarrow> webhook_status a = Updated"
  by (simp add: webhook_status_def)

text \<open>
  C10. A \<open>submit_validation\<close> submission whose approval status is neither \<open>approved\<close> nor
  \<open>rejected\<close>, for a request that exists, is answered with success and sets the status of
  that request to \<open>updated\<close>, whatever the corrections field holds and whatever the status
  of the request was. The corrections of the request become those of the submission;
  if the submission has no corrections field they stay as they were. The other requests
  are left as they are.
\<close>

theorem webhook_other_status_sets_updated:
  assumes verb: "tp_value payload = Some cv" "cv_action_verb cv = Some ''submit_validation''"
      and data: "cv_data cv = Some d" "cd_validation_id d = Some i"
      and other: "cd_approval_status d \<noteq> Value ''approved''"
                 "cd_approval_status d \<noteq> Value ''rejected''"
      and row: "filter (\<lambda>v. v_id v = i) (validation_requests st) = [v]"
  shows "\<exists>st'. validation_webhook t authorization (Some payload) st = (ResponseRecorded200, st')
          \<and> map v_id (validation_requests st') = map v_id (validation_requests st)
          \<and> (\<forall>v' \<in> set (validation_requests st').
                 if v_id v' = i
                 then v_validation_status v' = Some Updated
                      \<and> v_corrections_provided v'
                          = written (cd_corrections d) (v_corrections_provided v)
                      \<and> v_response_received_at v' = Some t
                 else v' \<in> set (validation_requests st))"
proof -
  let ?upd = "\<lambda>v. v\<lparr>v_validation_status := Some (webhook_status (cd_approval_status d)),
                        v_response_received_at := Some t,
                        v_corrections_provided :=
                          written (cd_corrections d) (v_corrections_provided v),
                        v_response_data :=
                          Some (TeamsResponse (cd_approval_status d) (cd_corrections d)
                                  (case tp_from_user_displayName payload of
                                     None \<Rightarrow> ''Unknown''
                                   | Some n \<Rightarrow> if n = [] then ''Unknown'' else n)
                                  t)\<rparr>"
  let ?st' = "update_validation i ?upd st"
  have wu: "webhook_update t payload d st = Some (?upd v, ?st')"
    using data(2) row by (simp add: webhook_update_def Let_def single_def)
  have r: "validation_webhook t authorization (Some payload) st = (ResponseRecorded200, ?st')"
    using verb data(1) wu by (simp add: validation_webhook_def validateTeamsWebhook_def)
  have ids: "map v_id (validation_requests ?st') = map v_id (validation_requests st)"
    by (simp add: update_validation_def comp_def cong: map_cong)
  have only: "w = v" if "w \<in> set (validation_requests st)" "v_id w = i" for w
  proof -
    from that have "w \<in> set (filter (\<lambda>v. v_id v = i) (validation_requests st))" by simp
    then show ?thesis unfolding row by simp
  qed
  have rows: "\<forall>v' \<in> set (validation_requests ?st').
                 if v_id v' = i
                 then v_validation_status v' = Some Updated
                      \<and> v_corrections_provided v'
                          = written (cd_corrections d) (v_corrections_provided v)
                      \<and> v_response_received_at v' = Some t
                 else v' \<in> set (validation_requests st)"
    using webhook_status_updated[OF other] only
    by (auto simp: update_validation_def)
  from r ids rows show ?thesis by blast
qed

text \<open>
  Request 1 is already approved and holds the corrections of an earlier response; a
  submission with status \<open>needs_changes\<close> and no corrections field sets it to \<open>updated\<close>
  and leaves the corrections as they were.
\<close>

theorem webhook_other_status_sets_updated_witness:
  "tp_value ex_card \<noteq> None
   \<and> map v_validation_status (validation_requests (ex_store ex_answered)) = [Some Approved]
   \<and> map v_corrections_provided (validation_requests (ex_store ex_answered))
      = [Some ''old text'']
   \<and> (\<exists>st'. validation_webhook 20 None (Some ex_card) (ex_store ex_answered)
             = (ResponseRecorded200, st')
          \<and> map v_id (validation_requests st') = [1]
          \<and> map v_validation_status (validation_requests st') = [Some Updated]
          \<and> map v_corrections_provided (validation_requests st') = [Some ''old text''])"
proof -
  let ?st = "ex_store ex_answered"
  let ?d = "\<lparr>cd_validation_id = Some 1, cd_approval_status = Value ''needs_changes'',
             cd_corrections = Undefined\<rparr>"
  let ?cv = "\<lparr>cv_action_verb = Some ''submit_validation'', cv_data = Some ?d\<rparr>"
  have v1: "tp_value ex_card = Some ?cv" by (simp add: ex_card_def)
  have v2: "cv_action_verb ?cv = Some ''submit_validation''" by simp
  have d1: "cv_data ?cv = Some ?d" by simp
  have d2: "cd_validation_id ?d = Some 1" by simp
  have o1: "cd_approval_status ?d \<noteq> Value ''approved''" by simp
  have o2: "cd_approval_status ?d \<noteq> Value ''rejected''" by simp
  have row: "filter (\<lambda>v. v_id v = 1) (validation_requests ?st) = [ex_answered]"
    by (simp add: ex_store_def ex_answered_def ex_request_def)
  have before: "map v_validation_status (validation_requests ?st) = [Some Approved]"
    by (simp add: ex_store_def ex_answered_def ex_request_def)
  have held: "map v_corrections_provided (validation_requests ?st) = [Some ''old text'']"
    by (simp add: ex_store_def ex_answered_def ex_request_def)
  from webhook_other_status_sets_updated[OF v1 v2 d1 d2 o1 o2 row, of 20 None]
  obtain st' where r: "validation_webhook 20 None (Some ex_card) ?st = (ResponseRecorded200, st')"
    and ids: "map v_id (validation_requests st') = map v_id (validation_requests ?st)"
    and rows: "\<forall>v' \<in> set (validation_requests st').
                 if v_id v' = 1
                 then v_validation_status v' = Some Updated
                      \<and> v_corrections_provided v'
                          = written (cd_corrections ?d) (v_corrections_provided ex_answered)
                      \<and> v_response_received_at v' = Some 20
                 else v' \<in> set (validation_requests ?st)"
    by blast
  from ids have ids1: "map v_id (validation_requests st') = [1]"
    by (simp add: ex_store_def ex_answered_def ex_request_def)
  then obtain v' where one: "validation_requests st' = [v']" "v_id v' = 1"
    by (cases "validation_requests st'") auto
  with rows have st: "map v_validation_status (validation_requests st') = [Some Updated]"
    by simp
  from one rows
  have co: "map v_corrections_provided (validation_requests st') = [Some ''old text'']"
    by (simp add: written_def ex_answered_def ex_request_def)
  have nn: "tp_value ex_card \<noteq> None" by (simp add: ex_card_def)
  show ?thesis
    by (intro conjI nn before held exI[of _ st'] r ids1 st co)
qed

end
